theory Spec2Isabelle
  imports Main "HOL-Library.AList"
begin

section \<open>Data model\<close>

text \<open>
  The repository holds two revisions of \<^verbatim>\<open>cmd/snapshot-pv-provisioner/snapshot-pv-provisioner.go\<close>:
  lines 1-256 work against the TPR API (\<^verbatim>\<open>tprv1\<close>, \<^verbatim>\<open>tprclient\<close>), lines 257-558 against the CRD
  API (\<^verbatim>\<open>crdv1\<close>, \<^verbatim>\<open>crdclient\<close>). Definitions that differ between the two carry the suffix
  \<open>_tpr\<close> or \<open>_crd\<close>; \<^verbatim>\<open>Provision\<close> is the same text in both and is modelled once, over the
  revision's \<^verbatim>\<open>snapshotRestore\<close>. The hostpath plugin is \<^verbatim>\<open>src/unnamed/part_000\<close>.

  A Go \<^verbatim>\<open>map[string]string\<close> that is only read by key is a map \<open>string \<rightharpoonup> string\<close>; the nil
  map and the empty map read alike and are both \<open>Map.empty\<close>. The labels a plugin returns are
  ranged over, so they are the list of the map's entries in the order the range visits them.
  A Go pointer that the code compares with nil is an \<open>option\<close>.
\<close>

type_synonym gomap = "string \<rightharpoonup> string"

type_synonym labels = "(string \<times> string) list"

type_synonym Quantity = int

record HostPathVolumeSource =
  hp_Path :: string

text \<open>\<^verbatim>\<open>v1.PersistentVolumeSource\<close>: the backend-specific location union of a volume.\<close>

record PersistentVolumeSource =
  pvs_HostPath :: "HostPathVolumeSource option"
  pvs_AWSElasticBlockStore :: "string option"
  pvs_GCEPersistentDisk :: "string option"
  pvs_Cinder :: "string option"

text \<open>\<^verbatim>\<open>v1.PersistentVolumeSpec\<close> embeds the source union (field \<open>pv_Source\<close>).\<close>

record PersistentVolumeSpec =
  pv_Capacity :: "string \<rightharpoonup> Quantity"
  pv_Source :: PersistentVolumeSource
  pv_AccessModes :: "string list"
  pv_ReclaimPolicy :: string

record PersistentVolume =
  pv_Name :: string
  pv_Labels :: gomap
  pv_Annotations :: gomap
  pv_Spec :: PersistentVolumeSpec

record LabelSelector =
  MatchLabels :: gomap

record ResourceRequirements =
  Requests :: "string \<rightharpoonup> Quantity"

record PersistentVolumeClaimSpec =
  pvc_AccessModes :: "string list"
  pvc_Selector :: "LabelSelector option"
  pvc_Resources :: ResourceRequirements

record PersistentVolumeClaim =
  pvc_Namespace :: string
  pvc_Annotations :: gomap
  pvc_Spec :: PersistentVolumeClaimSpec

text \<open>\<^verbatim>\<open>controller.VolumeOptions\<close>; \<^verbatim>\<open>PVC\<close> is a pointer the controller never passes as nil.\<close>

record VolumeOptions =
  PersistentVolumeReclaimPolicy :: string
  PVName :: string
  PVC :: PersistentVolumeClaim
  Parameters :: gomap

record HostPathVolumeSnapshotSource =
  snap_Path :: string

text \<open>
  \<^verbatim>\<open>VolumeSnapshotDataSource\<close>: the backend-specific source union of a snapshot artifact. The
  variants other than \<^verbatim>\<open>HostPath\<close> carry the identifier of the cloud snapshot.
\<close>

record VolumeSnapshotDataSource =
  HostPath :: "HostPathVolumeSnapshotSource option"
  AWSElasticBlockStore :: "string option"
  GCEPersistentDiskSnapshot :: "string option"
  CinderSnapshot :: "string option"

record ObjectReference =
  ref_Name :: string

text \<open>\<^verbatim>\<open>VolumeSnapshotDataSpec\<close> embeds the source union (field \<open>sd_Source\<close>).\<close>

record VolumeSnapshotDataSpec =
  PersistentVolumeRef :: "ObjectReference option"
  sd_Source :: VolumeSnapshotDataSource

record VolumeSnapshotData =
  sd_Name :: string
  sd_Spec :: VolumeSnapshotDataSpec

record VolumeSnapshotSpec =
  SnapshotDataName :: string

record VolumeSnapshot =
  vs_Name :: string
  vs_Spec :: VolumeSnapshotSpec

subsection \<open>Errors\<close>

text \<open>
  A Go \<^verbatim>\<open>error\<close> built in these files is \<^verbatim>\<open>fmt.Errorf(format, args...)\<close>, \<^verbatim>\<open>errors.New(text)\<close> or
  \<^verbatim>\<open>&controller.IgnoredError{text}\<close>; \<open>Errorf\<close> keeps the format string of the source and the
  arguments it is given, so that an error that carries its cause has the cause among its
  arguments. \<open>External\<close> is an error made outside these files (API server, plugin, process).
\<close>

datatype error =
    Errorf string "fmtarg list"
  | errors_New string
  | IgnoredError string
  | External string
and fmtarg =
    AStr string
  | AErr "error option"
  | ASnapshotDataSpec VolumeSnapshotDataSpec
  | APersistentVolume PersistentVolume
  | APersistentVolumeSpec "PersistentVolumeSpec option"
  | ASnapshotDataSource "VolumeSnapshotDataSource option"

text \<open>A call either returns or panics (a nil pointer is dereferenced).\<close>

datatype 'a outcome = Panic | Return 'a

section \<open>The plugin interface and the hostpath plugin\<close>

text \<open>
  \<^verbatim>\<open>volume.VolumePlugin\<close>. A plugin acts on the world outside the process (files, cloud disks),
  of type \<open>'w\<close>: every method takes the world and returns it changed. The TPR-era interface
  has the three snapshot methods; the CRD-era interface adds \<^verbatim>\<open>VolumeDelete\<close>.
\<close>

record 'w VolumePlugin =
  SnapshotCreate :: "PersistentVolumeSpec option \<Rightarrow> 'w
     \<Rightarrow> (VolumeSnapshotDataSource option \<times> error option) \<times> 'w"
  SnapshotDelete :: "VolumeSnapshotDataSource option \<Rightarrow> PersistentVolume option \<Rightarrow> 'w
     \<Rightarrow> error option \<times> 'w"
  SnapshotRestore :: "VolumeSnapshotData option \<Rightarrow> PersistentVolumeClaim \<Rightarrow> string \<Rightarrow> gomap \<Rightarrow> 'w
     \<Rightarrow> (PersistentVolumeSource option \<times> labels \<times> error option) \<times> 'w"

record 'w VolumePlugin_crd = "'w VolumePlugin" +
  VolumeDelete :: "PersistentVolume \<Rightarrow> 'w \<Rightarrow> error option \<times> 'w"

text \<open>
  The services of the operating system that the hostpath plugin calls: \<^verbatim>\<open>uuid.NewUUID()\<close>,
  \<^verbatim>\<open>exec.Command(name, args...).Run()\<close>, \<^verbatim>\<open>os.MkdirAll(dir, perm)\<close> and \<^verbatim>\<open>os.Remove(path)\<close>. They are
  not code of this repository and are parameters of the model.
\<close>

record 'w host =
  uuid_NewUUID :: "'w \<Rightarrow> string \<times> 'w"
  exec_Run :: "string list \<Rightarrow> 'w \<Rightarrow> error option \<times> 'w"
  os_MkdirAll :: "string \<Rightarrow> nat \<Rightarrow> 'w \<Rightarrow> error option \<times> 'w"
  os_Remove :: "string \<Rightarrow> 'w \<Rightarrow> error option \<times> 'w"

definition depot :: string where
  "depot = ''/tmp/''"

definition restorePoint :: string where
  "restorePoint = ''/restore/''"

definition hostpath_GetPluginName :: string where
  "hostpath_GetPluginName = ''hostPath''"

definition no_source :: VolumeSnapshotDataSource where
  "no_source = \<lparr> HostPath = None, AWSElasticBlockStore = None,
      GCEPersistentDiskSnapshot = None, CinderSnapshot = None \<rparr>"

definition no_pv_source :: PersistentVolumeSource where
  "no_pv_source = \<lparr> pvs_HostPath = None, pvs_AWSElasticBlockStore = None,
      pvs_GCEPersistentDisk = None, pvs_Cinder = None \<rparr>"

definition hostPath_SnapshotCreate ::
  "'w host \<Rightarrow> PersistentVolumeSpec option \<Rightarrow> 'w
     \<Rightarrow> (VolumeSnapshotDataSource option \<times> error option) \<times> 'w" where
  "hostPath_SnapshotCreate h spec w =
     (case spec of
        None \<Rightarrow> ((None, Some (Errorf ''invalid PV spec %v'' [APersistentVolumeSpec spec])), w)
      | Some sp \<Rightarrow>
          (case pvs_HostPath (pv_Source sp) of
             None \<Rightarrow> ((None, Some (Errorf ''invalid PV spec %v'' [APersistentVolumeSpec spec])), w)
           | Some hp \<Rightarrow>
               (let path = hp_Path hp;
                    (u, w1) = uuid_NewUUID h w;
                    file = depot @ u @ ''.tgz'';
                    res = no_source \<lparr> HostPath := Some \<lparr> snap_Path = file \<rparr> \<rparr>;
                    (err, w2) = exec_Run h [''tar'', ''czvf'', file, path] w1
                in ((Some res, err), w2))))"

definition hostPath_SnapshotDelete ::
  "'w host \<Rightarrow> VolumeSnapshotDataSource option \<Rightarrow> PersistentVolume option \<Rightarrow> 'w
     \<Rightarrow> error option \<times> 'w" where
  "hostPath_SnapshotDelete h src pv w =
     (case src of
        None \<Rightarrow> (Some (Errorf ''invalid VolumeSnapshotDataSource: %v'' [ASnapshotDataSource src]), w)
      | Some sr \<Rightarrow>
          (case HostPath sr of
             None \<Rightarrow>
               (Some (Errorf ''invalid VolumeSnapshotDataSource: %v'' [ASnapshotDataSource src]), w)
           | Some hp \<Rightarrow> os_Remove h (snap_Path hp) w))"

definition hostPath_SnapshotRestore ::
  "'w host \<Rightarrow> VolumeSnapshotData option \<Rightarrow> PersistentVolumeClaim \<Rightarrow> string \<Rightarrow> gomap \<Rightarrow> 'w
     \<Rightarrow> (PersistentVolumeSource option \<times> labels \<times> error option) \<times> 'w" where
  "hostPath_SnapshotRestore h snapshotData pvc pvName parameters w =
     (case snapshotData of
        None \<Rightarrow> ((None, [], Some (Errorf ''failed to retrieve Snapshot spec'' [])), w)
      | Some sd \<Rightarrow>
          (case HostPath (sd_Source (sd_Spec sd)) of
             None \<Rightarrow> ((None, [], Some (Errorf ''failed to retrieve Snapshot spec'' [])), w)
           | Some hp \<Rightarrow>
               (let snapId = snap_Path hp;
                    (u, w1) = uuid_NewUUID h w;
                    dir = restorePoint @ u;
                    (_, w2) = os_MkdirAll h dir 488 w1;
                    (err, w3) = exec_Run h [''tar'', ''xzvf'', snapId, ''-C'', dir] w2
                in (case err of
                      Some e \<Rightarrow>
                        ((None, [], Some (Errorf ''failed to restore %s to %s: %v''
                                            [AStr snapId, AStr dir, AErr err])), w3)
                    | None \<Rightarrow>
                        ((Some (no_pv_source \<lparr> pvs_HostPath := Some \<lparr> hp_Path = dir \<rparr> \<rparr>),
                          [], None), w3)))))"

text \<open>\<^verbatim>\<open>hostpath.RegisterPlugin()\<close>: the plugin value, whose methods are the three above.\<close>

definition hostpath_RegisterPlugin :: "'w host \<Rightarrow> 'w VolumePlugin" where
  "hostpath_RegisterPlugin h =
     \<lparr> SnapshotCreate = hostPath_SnapshotCreate h,
       SnapshotDelete = hostPath_SnapshotDelete h,
       SnapshotRestore = hostPath_SnapshotRestore h \<rparr>"

section \<open>The provisioner\<close>

subsection \<open>What the provisioner does to the outside\<close>

text \<open>
  Everything the provisioner does besides returning is recorded, in order, in \<open>events\<close>:
  a request sent to the API server (the verb, the resource, the namespace and the name), a
  call of a plugin method (the registry key of the plugin and the method) and a \<^verbatim>\<open>glog\<close>
  line (severity and format string). \<open>world\<close> is the world the plugins act on.
\<close>

datatype verb = GET | POST | PUT | PATCH | DELETE

datatype resource = VolumeSnapshotResourcePlural | VolumeSnapshotDataResourcePlural
  | PersistentVolumes

datatype plugin_method = M_Init | M_SnapshotRestore | M_VolumeDelete

datatype severity = Info | InfoV nat | Warning

datatype event =
    Request verb resource string string
  | PluginCall string plugin_method
  | Glog severity string

record 'w state =
  events :: "event list"
  world :: 'w

definition emit :: "event \<Rightarrow> 'w state \<Rightarrow> 'w state" where
  "emit e s = s \<lparr> events := events s @ [e] \<rparr>"

text \<open>
  The answers of the API server. \<open>get_VolumeSnapshot\<close> and \<open>get_VolumeSnapshotData\<close> answer
  \<^verbatim>\<open>Get().Resource(r).Namespace(ns).Name(n).Do().Into(&obj)\<close> of the TPR/CRD REST client, for the
  two resources the provisioner asks for; \<open>pv_Get\<close> answers
  \<^verbatim>\<open>client.CoreV1().PersistentVolumes().Get(name, ...)\<close>, a pointer and an error.
\<close>

record RESTClient =
  get_VolumeSnapshot :: "string \<Rightarrow> string \<Rightarrow> error + VolumeSnapshot"
  get_VolumeSnapshotData :: "string \<Rightarrow> string \<Rightarrow> error + VolumeSnapshotData"

record kubernetes_Interface =
  pv_Get :: "string \<Rightarrow> PersistentVolume option \<times> error option"

text \<open>\<^verbatim>\<open>snapshotProvisioner\<close>; the REST client field is \<^verbatim>\<open>tprclient\<close> or \<^verbatim>\<open>crdclient\<close>.\<close>

record snapshotProvisioner =
  client :: kubernetes_Interface
  tprclient :: RESTClient
  identity :: string

definition newSnapshotProvisioner ::
  "kubernetes_Interface \<Rightarrow> RESTClient \<Rightarrow> string \<Rightarrow> snapshotProvisioner" where
  "newSnapshotProvisioner cl tc ident = \<lparr> client = cl, tprclient = tc, identity = ident \<rparr>"

definition provisionerName :: string where
  "provisionerName = ''volumesnapshot.external-storage.k8s.io/snapshot-promoter''"

definition provisionerIDAnn :: string where
  "provisionerIDAnn = ''snapshotProvisionerIdentity''"

definition NamespaceDefault :: string where
  "NamespaceDefault = ''default''"

definition ResourceStorage :: string where
  "ResourceStorage = ''storage''"

text \<open>
  Declarations of the repository's other packages that the provisioner uses and that are
  not among the source files; they are parameters: the annotation key
  \<^verbatim>\<open>SnapshotPVCAnnotation\<close> of the client package and the two functions of the API packages that
  give the volume type tag of a snapshot data spec (TPR) and of a volume spec (CRD).
\<close>

record pkg =
  SnapshotPVCAnnotation :: string
  GetSupportedVolumeFromSnapshotDataSpec :: "VolumeSnapshotDataSpec \<Rightarrow> string"
  GetSupportedVolumeFromPVSpec :: "PersistentVolumeSpec \<Rightarrow> string"

text \<open>The result of \<^verbatim>\<open>snapshotRestore\<close>: \<^verbatim>\<open>(*v1.PersistentVolumeSource, map[string]string, error)\<close>.\<close>

type_synonym restored = "PersistentVolumeSource option \<times> labels \<times> error option"

subsection \<open>snapshotRestore, TPR revision (lines 68-90)\<close>

definition snapshotRestore_tpr ::
  "pkg \<Rightarrow> (string \<rightharpoonup> ('w, 'z) VolumePlugin_scheme) \<Rightarrow> snapshotProvisioner \<Rightarrow> string
     \<Rightarrow> VolumeSnapshotData \<Rightarrow> VolumeOptions \<Rightarrow> 'w state \<Rightarrow> restored outcome \<times> 'w state" where
  "snapshotRestore_tpr k volumePlugins p snapshotName snapshotData options s =
     (let spec = sd_Spec snapshotData;
          volumeType = GetSupportedVolumeFromSnapshotDataSpec k spec
      in if length volumeType = 0
         then (Return (None, [], Some (Errorf ''unsupported volume type found in PV %#v''
                                         [ASnapshotDataSpec spec])), s)
         else
           (case volumePlugins volumeType of
              None \<Rightarrow>
                (Return (None, [], Some (Errorf ''%s is not supported volume for %#v''
                                           [AStr volumeType, ASnapshotDataSpec spec])), s)
            | Some plugin \<Rightarrow>
                (let ((pvSrc, labels, err), w1) =
                       SnapshotRestore plugin (Some snapshotData) (PVC options) (PVName options)
                         (Parameters options) (world s);
                     s1 = emit (PluginCall volumeType M_SnapshotRestore) (s \<lparr> world := w1 \<rparr>)
                 in if err \<noteq> None
                    then (Return (None, [], None),
                          emit (Glog Warning ''failed to snapshot %#v, err: %v'') s1)
                    else
                      (case pvSrc of
                         None \<Rightarrow> (Panic, s1)
                       | Some src \<Rightarrow>
                           (Return (pvSrc, labels, None),
                            emit (Glog Info ''snapshot %#v to snap %#v'') s1)))))"

subsection \<open>snapshotRestore, CRD revision (lines 328-369)\<close>

definition getPVFromVolumeSnapshotDataSpec ::
  "snapshotProvisioner \<Rightarrow> VolumeSnapshotDataSpec \<Rightarrow> 'w state
     \<Rightarrow> (PersistentVolume option \<times> error option) \<times> 'w state" where
  "getPVFromVolumeSnapshotDataSpec p snapshotDataSpec s =
     (case PersistentVolumeRef snapshotDataSpec of
        None \<Rightarrow> ((None, Some (Errorf ''VolumeSnapshotDataSpec is not bound to any PV'' [])), s)
      | Some r \<Rightarrow>
          (let pvName = ref_Name r
           in if pvName = []
              then ((None, Some (Errorf ''The PV name is not specified in snapshotdata %#v''
                                   [ASnapshotDataSpec snapshotDataSpec])), s)
              else
                (let (pv, err) = pv_Get (client p) pvName;
                     s1 = emit (Request GET PersistentVolumes [] pvName) s
                 in if err \<noteq> None
                    then ((None, Some (Errorf ''Failed to retrieve PV %s from the API server: %q''
                                         [AStr pvName, AErr err])), s1)
                    else ((pv, None), s1))))"

text \<open>
  Line 350 reads \<^verbatim>\<open>&pv.Spec\<close>, which panics when \<^verbatim>\<open>pv\<close> is nil; line 364 reads \<^verbatim>\<open>*pvSrc\<close>, which
  panics when \<^verbatim>\<open>pvSrc\<close> is nil. The test of line 361 is \<^verbatim>\<open>err != nil && pv == nil\<close>.
\<close>

definition snapshotRestore_crd ::
  "pkg \<Rightarrow> (string \<rightharpoonup> ('w, 'z) VolumePlugin_scheme) \<Rightarrow> snapshotProvisioner \<Rightarrow> string
     \<Rightarrow> VolumeSnapshotData \<Rightarrow> VolumeOptions \<Rightarrow> 'w state \<Rightarrow> restored outcome \<times> 'w state" where
  "snapshotRestore_crd k volumePlugins p snapshotName snapshotData options s =
     (let spec = sd_Spec snapshotData;
          ((pv, err), s0) = getPVFromVolumeSnapshotDataSpec p spec s
      in if err \<noteq> None then (Return (None, [], err), s0)
         else
           (case pv of
              None \<Rightarrow> (Panic, s0)
            | Some pvv \<Rightarrow>
                (let volumeType = GetSupportedVolumeFromPVSpec k (pv_Spec pvv)
                 in if length volumeType = 0
                    then (Return (None, [], Some (Errorf ''unsupported volume type found in PV %#v''
                                                    [ASnapshotDataSpec spec])), s0)
                    else
                      (case volumePlugins volumeType of
                         None \<Rightarrow>
                           (Return (None, [], Some (Errorf ''%s is not supported volume for %#v''
                                                      [AStr volumeType, ASnapshotDataSpec spec])), s0)
                       | Some plugin \<Rightarrow>
                           (let ((pvSrc, labels, err), w1) =
                                  SnapshotRestore plugin (Some snapshotData) (PVC options)
                                    (PVName options) (Parameters options) (world s0);
                                s1 = emit (PluginCall volumeType M_SnapshotRestore)
                                       (s0 \<lparr> world := w1 \<rparr>)
                            in if err \<noteq> None \<and> pv = None
                               then (Return (None, [], None),
                                     emit (Glog Warning ''failed to snapshot %#v, err: %v'') s1)
                               else
                                 (case pvSrc of
                                    None \<Rightarrow> (Panic, s1)
                                  | Some src \<Rightarrow>
                                      (Return (pvSrc, labels, None),
                                       emit (Glog Info ''snapshot %#v to snap %#v'') s1)))))))"

subsection \<open>Provision (lines 93-161 and 372-440)\<close>

text \<open>
  The loop \<^verbatim>\<open>for k, v := range labels { pv.Labels[k] = v }\<close>, on the entries of \<^verbatim>\<open>labels\<close> in the
  order the range visits them.
\<close>

fun range_labels :: "labels \<Rightarrow> gomap \<Rightarrow> gomap" where
  "range_labels [] m = m"
| "range_labels ((k, v) # rest) m = range_labels rest (m(k \<mapsto> v))"

text \<open>
  \<^verbatim>\<open>options.PVC.Spec.Resources.Requests[v1.ResourceStorage]\<close>: a key that is absent reads as the
  zero quantity.
\<close>

definition requested_storage :: "VolumeOptions \<Rightarrow> Quantity" where
  "requested_storage options =
     (case Requests (pvc_Resources (pvc_Spec (PVC options))) ResourceStorage of
        None \<Rightarrow> 0
      | Some q \<Rightarrow> q)"

text \<open>
  Lines 132-156 (411-435): the volume record that \<^verbatim>\<open>Provision\<close> builds from the restored
  source and labels. \<^verbatim>\<open>pv.Labels\<close> is nil in the struct literal and is made before the loop.
\<close>

definition assemble_pv ::
  "snapshotProvisioner \<Rightarrow> VolumeOptions \<Rightarrow> PersistentVolumeSource \<Rightarrow> labels
     \<Rightarrow> PersistentVolume" where
  "assemble_pv p options pvSrc labels =
     (let pv = \<lparr> pv_Name = PVName options,
                 pv_Labels = Map.empty,
                 pv_Annotations = [provisionerIDAnn \<mapsto> identity p],
                 pv_Spec = \<lparr>
                   pv_Capacity = [ResourceStorage \<mapsto> requested_storage options],
                   pv_Source = pvSrc,
                   pv_AccessModes = pvc_AccessModes (pvc_Spec (PVC options)),
                   pv_ReclaimPolicy = PersistentVolumeReclaimPolicy options \<rparr> \<rparr>
      in if length labels \<noteq> 0
         then pv \<lparr> pv_Labels := range_labels labels (pv_Labels pv) \<rparr>
         else pv)"

type_synonym provisioned = "PersistentVolume option \<times> error option"

text \<open>
  The test \<^verbatim>\<open>err != nil || pvSrc == nil\<close> of line 129 (408) is the case on \<open>pvSrc\<close> with the
  test of \<open>err\<close> in its second branch; both ways return the same error.
\<close>

definition Provision ::
  "(snapshotProvisioner \<Rightarrow> string \<Rightarrow> VolumeSnapshotData \<Rightarrow> VolumeOptions \<Rightarrow> 'w state
      \<Rightarrow> restored outcome \<times> 'w state)
     \<Rightarrow> pkg \<Rightarrow> snapshotProvisioner \<Rightarrow> VolumeOptions \<Rightarrow> 'w state
     \<Rightarrow> provisioned outcome \<times> 'w state" where
  "Provision snapshotRestore k p options s =
     (if pvc_Selector (pvc_Spec (PVC options)) \<noteq> None
      then (Return (None, Some (Errorf ''claim Selector is not supported'' [])), s)
      else
        (case pvc_Annotations (PVC options) (SnapshotPVCAnnotation k) of
           None \<Rightarrow> (Return (None, Some (Errorf ''snapshot annotation not found on PV'' [])), s)
         | Some snapshotName \<Rightarrow>
             (let s1 = emit (Request GET VolumeSnapshotResourcePlural
                               (pvc_Namespace (PVC options)) snapshotName) s
              in case get_VolumeSnapshot (tprclient p) (pvc_Namespace (PVC options)) snapshotName of
                   Inl err \<Rightarrow>
                     (Return (None, Some (Errorf ''failed to retrieve VolumeSnapshot %s: %v''
                                            [AStr snapshotName, AErr (Some err)])), s1)
                 | Inr snapshot \<Rightarrow>
                     if length (SnapshotDataName (vs_Spec snapshot)) = 0
                     then (Return (None,
                             Some (Errorf ''VolumeSnapshot %s is not bound to any VolumeSnapshotData''
                                     [AStr snapshotName, AErr None])), s1)
                     else
                       (let s2 = emit (Request GET VolumeSnapshotDataResourcePlural
                                         NamespaceDefault (SnapshotDataName (vs_Spec snapshot))) s1
                        in case get_VolumeSnapshotData (tprclient p) NamespaceDefault
                                  (SnapshotDataName (vs_Spec snapshot)) of
                             Inl err \<Rightarrow>
                               (Return (None,
                                  Some (Errorf ''failed to retrieve VolumeSnapshotData %s: %v''
                                          [AStr (SnapshotDataName (vs_Spec snapshot)),
                                           AErr (Some err)])), s2)
                           | Inr snapshotData \<Rightarrow>
                               (let s3 = emit (Glog (InfoV 3)
                                                 ''restore from VolumeSnapshotData %s'') s2
                                in case snapshotRestore p (SnapshotDataName (vs_Spec snapshot))
                                          snapshotData options s3 of
                                     (Panic, s4) \<Rightarrow> (Panic, s4)
                                   | (Return (pvSrc, labels, err), s4) \<Rightarrow>
                                       (case pvSrc of
                                          None \<Rightarrow>
                                            (Return (None,
                                               Some (Errorf
                                                 ''failed to create a PV from snapshot %s: %v''
                                                 [AStr snapshotName, AErr err])), s4)
                                        | Some src \<Rightarrow>
                                            if err \<noteq> None
                                            then (Return (None,
                                                    Some (Errorf
                                                      ''failed to create a PV from snapshot %s: %v''
                                                      [AStr snapshotName, AErr err])), s4)
                                            else
                                              (Return (Some (assemble_pv p options src labels),
                                                 None),
                                               emit (Glog Info
                                                 ''successfully created Snapshot share %#v'')
                                                 s4)))))))"

definition Provision_tpr ::
  "pkg \<Rightarrow> (string \<rightharpoonup> ('w, 'z) VolumePlugin_scheme) \<Rightarrow> snapshotProvisioner \<Rightarrow> VolumeOptions
     \<Rightarrow> 'w state \<Rightarrow> provisioned outcome \<times> 'w state" where
  "Provision_tpr k volumePlugins = Provision (snapshotRestore_tpr k volumePlugins) k"

definition Provision_crd ::
  "pkg \<Rightarrow> (string \<rightharpoonup> ('w, 'z) VolumePlugin_scheme) \<Rightarrow> snapshotProvisioner \<Rightarrow> VolumeOptions
     \<Rightarrow> 'w state \<Rightarrow> provisioned outcome \<times> 'w state" where
  "Provision_crd k volumePlugins = Provision (snapshotRestore_crd k volumePlugins) k"

subsection \<open>Delete (lines 165-175 and 444-464)\<close>

definition Delete_tpr ::
  "snapshotProvisioner \<Rightarrow> PersistentVolume \<Rightarrow> 'w state \<Rightarrow> error option \<times> 'w state" where
  "Delete_tpr p volume s =
     (case pv_Annotations volume provisionerIDAnn of
        None \<Rightarrow> (Some (errors_New ''identity annotation not found on PV''), s)
      | Some ann \<Rightarrow>
          if ann \<noteq> identity p
          then (Some (IgnoredError ''identity annotation on PV does not match ours''), s)
          else (None, s))"

definition Delete_crd ::
  "pkg \<Rightarrow> (string \<rightharpoonup> 'w VolumePlugin_crd) \<Rightarrow> snapshotProvisioner \<Rightarrow> PersistentVolume
     \<Rightarrow> 'w state \<Rightarrow> error option \<times> 'w state" where
  "Delete_crd k volumePlugins p volume s =
     (case pv_Annotations volume provisionerIDAnn of
        None \<Rightarrow> (Some (errors_New ''identity annotation not found on PV''), s)
      | Some ann \<Rightarrow>
          if ann \<noteq> identity p
          then (Some (IgnoredError ''identity annotation on PV does not match ours''), s)
          else
            (let volumeType = GetSupportedVolumeFromPVSpec k (pv_Spec volume)
             in if length volumeType = 0
                then (Some (Errorf ''unsupported volume type found in PV %#v''
                              [APersistentVolume volume]), s)
                else
                  (case volumePlugins volumeType of
                     None \<Rightarrow>
                       (Some (Errorf ''%s is not supported volume for %#v''
                                [AStr volumeType, APersistentVolume volume]), s)
                   | Some plugin \<Rightarrow>
                       (let (err, w1) = VolumeDelete plugin volume (world s)
                        in (err, emit (PluginCall volumeType M_VolumeDelete)
                                   (s \<lparr> world := w1 \<rparr>))))))"

subsection \<open>buildVolumePlugins (lines 241-256 and 530-558)\<close>

text \<open>
  The cloud provider packages and the cloud plugins are not among the source files; what
  \<^verbatim>\<open>buildVolumePlugins\<close> uses of them is a parameter: the answer of
  \<^verbatim>\<open>cloudprovider.InitCloudProvider\<close>, the provider names, and for each cloud plugin its name,
  the value \<^verbatim>\<open>RegisterPlugin()\<close> returns and what \<^verbatim>\<open>Init(cloud)\<close> makes of it.
\<close>

datatype cloud = Cloud string

record 'p cloudpkgs =
  InitCloudProvider :: "string \<Rightarrow> string \<Rightarrow> cloud option \<times> error option"
  aws_ProviderName :: string
  gce_ProviderName :: string
  openstack_ProviderName :: string
  aws_ebs_GetPluginName :: string
  gce_pd_GetPluginName :: string
  cinder_GetPluginName :: string
  aws_ebs_RegisterPlugin :: 'p
  gce_pd_RegisterPlugin :: 'p
  cinder_RegisterPlugin :: 'p
  plugin_Init :: "cloud \<Rightarrow> 'p \<Rightarrow> 'p"

record flags =
  cloudProvider :: string
  cloudConfigFile :: string

definition buildVolumePlugins_tpr ::
  "('w VolumePlugin) cloudpkgs \<Rightarrow> 'w host \<Rightarrow> flags \<Rightarrow> (string \<rightharpoonup> 'w VolumePlugin) \<Rightarrow> 'w state
     \<Rightarrow> (string \<rightharpoonup> 'w VolumePlugin) \<times> 'w state" where
  "buildVolumePlugins_tpr c h f volumePlugins s =
     (let (vp1, s1) =
        (if length (cloudProvider f) \<noteq> 0
         then
           (case InitCloudProvider c (cloudProvider f) (cloudConfigFile f) of
              (Some cl, None) \<Rightarrow>
                if cloudProvider f = aws_ProviderName c
                then (volumePlugins(aws_ebs_GetPluginName c \<mapsto>
                        plugin_Init c cl (aws_ebs_RegisterPlugin c)), s)
                else (volumePlugins, s)
            | _ \<Rightarrow>
                (volumePlugins,
                 emit (Glog Warning
                   ''failed to initialize aws cloudprovider: %v, supported cloudproviders are %#v'')
                   s))
         else (volumePlugins, s))
      in (vp1(hostpath_GetPluginName \<mapsto> hostpath_RegisterPlugin h), s1))"

text \<open>
  The CRD-era hostpath plugin is not among the source files: the value its
  \<^verbatim>\<open>RegisterPlugin()\<close> returns is the parameter \<open>hostpath\<close>; its name is \<^verbatim>\<open>"hostPath"\<close> as in
  \<^verbatim>\<open>part_000\<close>.
\<close>

definition buildVolumePlugins_crd ::
  "'p cloudpkgs \<Rightarrow> 'p \<Rightarrow> flags \<Rightarrow> (string \<rightharpoonup> 'p) \<Rightarrow> 'w state \<Rightarrow> (string \<rightharpoonup> 'p) \<times> 'w state" where
  "buildVolumePlugins_crd c hostpath f volumePlugins s =
     (let (vp3, s3) =
        (if length (cloudProvider f) \<noteq> 0
         then
           (case InitCloudProvider c (cloudProvider f) (cloudConfigFile f) of
              (Some cl, None) \<Rightarrow>
                (let vp1 = (if cloudProvider f = aws_ProviderName c
                            then volumePlugins(aws_ebs_GetPluginName c \<mapsto>
                                   plugin_Init c cl (aws_ebs_RegisterPlugin c))
                            else volumePlugins);
                     (vp2, s2) = (if cloudProvider f = gce_ProviderName c
                                  then (vp1(gce_pd_GetPluginName c \<mapsto>
                                          plugin_Init c cl (gce_pd_RegisterPlugin c)),
                                        emit (Glog Info ''Register cloudprovider %s'') s)
                                  else (vp1, s))
                 in if cloudProvider f = openstack_ProviderName c
                    then (vp2(cinder_GetPluginName c \<mapsto>
                            plugin_Init c cl (cinder_RegisterPlugin c)),
                          emit (Glog Info ''Register cloudprovider %s'') s2)
                    else (vp2, s2))
            | _ \<Rightarrow>
                (volumePlugins,
                 emit (Glog Warning
                   ''failed to initialize aws cloudprovider: %v, supported cloudproviders are %#v'')
                   s))
         else (volumePlugins, s))
      in (vp3(hostpath_GetPluginName \<mapsto> hostpath), s3))"

section \<open>Vocabulary of the properties\<close>

text \<open>
  The error kinds of the design, read off the errors the code builds: the two refusals of
  a volume type, in \<^verbatim>\<open>snapshotRestore\<close> and in \<^verbatim>\<open>Delete\<close>, are \<open>UnsupportedVolumeType\<close>; the error
  \<^verbatim>\<open>Provision\<close> returns after \<^verbatim>\<open>snapshotRestore\<close> is \<open>RestoreFailed\<close>, and its cause is the last
  argument of the format.
\<close>

definition UnsupportedVolumeType :: "error \<Rightarrow> bool" where
  "UnsupportedVolumeType e =
     (case e of
        Errorf f args \<Rightarrow>
          f = ''unsupported volume type found in PV %#v'' \<or> f = ''%s is not supported volume for %#v''
      | _ \<Rightarrow> False)"

definition RestoreFailed :: "string \<Rightarrow> error option \<Rightarrow> error" where
  "RestoreFailed snapshotName cause =
     Errorf ''failed to create a PV from snapshot %s: %v'' [AStr snapshotName, AErr cause]"

text \<open>
  The claim of \<open>options\<close> names the snapshot \<open>snapshotName\<close>, the API server answers with
  \<open>snapshot\<close>, which is bound, and with \<open>snapshotData\<close>: steps 1 to 5 of \<^verbatim>\<open>Provision\<close> pass.
\<close>

definition resolved ::
  "pkg \<Rightarrow> snapshotProvisioner \<Rightarrow> VolumeOptions \<Rightarrow> string \<Rightarrow> VolumeSnapshot \<Rightarrow> VolumeSnapshotData
     \<Rightarrow> bool" where
  "resolved k p options snapshotName snapshot snapshotData =
     (pvc_Selector (pvc_Spec (PVC options)) = None
      \<and> pvc_Annotations (PVC options) (SnapshotPVCAnnotation k) = Some snapshotName
      \<and> get_VolumeSnapshot (tprclient p) (pvc_Namespace (PVC options)) snapshotName = Inr snapshot
      \<and> SnapshotDataName (vs_Spec snapshot) \<noteq> []
      \<and> get_VolumeSnapshotData (tprclient p) NamespaceDefault (SnapshotDataName (vs_Spec snapshot))
          = Inr snapshotData)"

text \<open>What \<^verbatim>\<open>Provision\<close> has done when it reaches \<^verbatim>\<open>snapshotRestore\<close>: two reads and a log line.\<close>

definition resolution_events :: "VolumeOptions \<Rightarrow> string \<Rightarrow> VolumeSnapshot \<Rightarrow> event list" where
  "resolution_events options snapshotName snapshot =
     [Request GET VolumeSnapshotResourcePlural (pvc_Namespace (PVC options)) snapshotName,
      Request GET VolumeSnapshotDataResourcePlural NamespaceDefault
        (SnapshotDataName (vs_Spec snapshot)),
      Glog (InfoV 3) ''restore from VolumeSnapshotData %s'']"

definition is_write :: "event \<Rightarrow> bool" where
  "is_write e = (case e of Request v r ns n \<Rightarrow> v \<noteq> GET | _ \<Rightarrow> False)"

text \<open>
  From \<open>s\<close> to \<open>s'\<close> the events of \<open>s\<close> are kept, and none of those added writes to the API
  server.
\<close>

definition reads_only :: "'w state \<Rightarrow> 'w state \<Rightarrow> bool" where
  "reads_only s s' = (\<exists>new. events s' = events s @ new \<and> (\<forall>e\<in>set new. \<not> is_write e))"

subsection \<open>The accessors of the volume type tag\<close>

datatype variant = V_HostPath | V_AWSElasticBlockStore | V_GCEPersistentDisk | V_Cinder

text \<open>The variants of the two unions that are populated, in the order of the fields.\<close>

definition populated :: "VolumeSnapshotDataSource \<Rightarrow> variant list" where
  "populated src =
     (if HostPath src \<noteq> None then [V_HostPath] else [])
     @ (if AWSElasticBlockStore src \<noteq> None then [V_AWSElasticBlockStore] else [])
     @ (if GCEPersistentDiskSnapshot src \<noteq> None then [V_GCEPersistentDisk] else [])
     @ (if CinderSnapshot src \<noteq> None then [V_Cinder] else [])"

definition populated_pv :: "PersistentVolumeSource \<Rightarrow> variant list" where
  "populated_pv src =
     (if pvs_HostPath src \<noteq> None then [V_HostPath] else [])
     @ (if pvs_AWSElasticBlockStore src \<noteq> None then [V_AWSElasticBlockStore] else [])
     @ (if pvs_GCEPersistentDisk src \<noteq> None then [V_GCEPersistentDisk] else [])
     @ (if pvs_Cinder src \<noteq> None then [V_Cinder] else [])"

text \<open>
  Modelled from the spec: \<^verbatim>\<open>GetSupportedVolumeFromSnapshotDataSpec\<close> of the package
  \<^verbatim>\<open>pkg/apis/tpr/v1\<close> is not among the source files. The spec has the volume type tag
  determined "by inspecting which variant of SnapshotData's backend-specific source union is
  populated", has "exactly one backend-specific source variant is populated; zero or more
  than one is invalid", and describes the accessor as one "that returns the populated tag or
  a none sentinel"; the sentinel is the empty string that \<^verbatim>\<open>snapshotRestore\<close> tests for. The tag
  of each variant is the parameter \<open>tag_of\<close>.
\<close>

definition spec_GetSupportedVolumeFromSnapshotDataSpec ::
  "(variant \<Rightarrow> string) \<Rightarrow> VolumeSnapshotDataSpec \<Rightarrow> string" where
  "spec_GetSupportedVolumeFromSnapshotDataSpec tag_of spec =
     (case populated (sd_Source spec) of [v] \<Rightarrow> tag_of v | _ \<Rightarrow> [])"

text \<open>
  Modelled from the spec: \<^verbatim>\<open>GetSupportedVolumeFromPVSpec\<close> of the package \<^verbatim>\<open>pkg/apis/crd/v1\<close> is
  not among the source files. The spec has the location of a volume be a "tagged union
  mirroring SnapshotData's variant set" and the tag determined "from the Volume's
  backend-specific location union".
\<close>

definition spec_GetSupportedVolumeFromPVSpec ::
  "(variant \<Rightarrow> string) \<Rightarrow> PersistentVolumeSpec \<Rightarrow> string" where
  "spec_GetSupportedVolumeFromPVSpec tag_of spec =
     (case populated_pv (pv_Source spec) of [v] \<Rightarrow> tag_of v | _ \<Rightarrow> [])"

section \<open>Concrete inputs\<close>

text \<open>
  A host whose archive tool exits with \<open>tar_exit\<close>; the n-th identifier it generates is
  \<open>id\<close> followed by n strokes, and the world is the number of identifiers generated.
\<close>

definition ex_host :: "error option \<Rightarrow> nat host" where
  "ex_host tar_exit =
     \<lparr> uuid_NewUUID = (\<lambda>w. (''id'' @ replicate w (CHR ''i''), Suc w)),
       exec_Run = (\<lambda>args w. (tar_exit, w)),
       os_MkdirAll = (\<lambda>dir perm w. (None, w)),
       os_Remove = (\<lambda>path w. (None, w)) \<rparr>"

definition ex_tar_error :: error where
  "ex_tar_error = External ''exit status 2''"

definition ex_tag_of :: "variant \<Rightarrow> string" where
  "ex_tag_of v =
     (case v of V_HostPath \<Rightarrow> ''hostPath'' | V_AWSElasticBlockStore \<Rightarrow> ''aws_ebs''
      | V_GCEPersistentDisk \<Rightarrow> ''gce-pd'' | V_Cinder \<Rightarrow> ''cinder'')"

definition ex_pkg :: pkg where
  "ex_pkg =
     \<lparr> SnapshotPVCAnnotation = ''snapshot'',
       GetSupportedVolumeFromSnapshotDataSpec = spec_GetSupportedVolumeFromSnapshotDataSpec ex_tag_of,
       GetSupportedVolumeFromPVSpec = spec_GetSupportedVolumeFromPVSpec ex_tag_of \<rparr>"

text \<open>A volume at \<^verbatim>\<open>/data\<close> on the host, provisioned by the instance \<^verbatim>\<open>prov-A\<close>.\<close>

definition ex_pv0 :: PersistentVolume where
  "ex_pv0 =
     \<lparr> pv_Name = ''pv0'', pv_Labels = Map.empty,
       pv_Annotations = [provisionerIDAnn \<mapsto> ''prov-A''],
       pv_Spec = \<lparr> pv_Capacity = [ResourceStorage \<mapsto> 1024],
                   pv_Source = no_pv_source \<lparr> pvs_HostPath := Some \<lparr> hp_Path = ''/data'' \<rparr> \<rparr>,
                   pv_AccessModes = [''ReadWriteOnce''], pv_ReclaimPolicy = ''Delete'' \<rparr> \<rparr>"

text \<open>Snapshot data \<^verbatim>\<open>d1\<close> of that volume, with the source union \<open>src\<close>.\<close>

definition ex_d1 :: "VolumeSnapshotDataSource \<Rightarrow> VolumeSnapshotData" where
  "ex_d1 src =
     \<lparr> sd_Name = ''d1'',
       sd_Spec = \<lparr> PersistentVolumeRef = Some \<lparr> ref_Name = ''pv0'' \<rparr>, sd_Source = src \<rparr> \<rparr>"

definition ex_hostpath_source :: VolumeSnapshotDataSource where
  "ex_hostpath_source = no_source \<lparr> HostPath := Some \<lparr> snap_Path = ''/tmp/abc.tgz'' \<rparr> \<rparr>"

definition ex_s1 :: VolumeSnapshot where
  "ex_s1 = \<lparr> vs_Name = ''s1'', vs_Spec = \<lparr> SnapshotDataName = ''d1'' \<rparr> \<rparr>"

text \<open>An API server that holds the snapshot \<^verbatim>\<open>s1\<close> in \<^verbatim>\<open>ns1\<close>, its data \<^verbatim>\<open>d1\<close> and the volume \<^verbatim>\<open>pv0\<close>.\<close>

definition ex_rest :: "VolumeSnapshotDataSource \<Rightarrow> RESTClient" where
  "ex_rest src =
     \<lparr> get_VolumeSnapshot =
         (\<lambda>ns n. if ns = ''ns1'' \<and> n = ''s1'' then Inr ex_s1 else Inl (External ''not found'')),
       get_VolumeSnapshotData =
         (\<lambda>ns n. if ns = ''default'' \<and> n = ''d1'' then Inr (ex_d1 src)
                  else Inl (External ''not found'')) \<rparr>"

definition ex_kube :: kubernetes_Interface where
  "ex_kube =
     \<lparr> pv_Get = (\<lambda>n. if n = ''pv0'' then (Some ex_pv0, None)
                      else (None, Some (External ''not found''))) \<rparr>"

definition ex_p :: "VolumeSnapshotDataSource \<Rightarrow> string \<Rightarrow> snapshotProvisioner" where
  "ex_p src ident = newSnapshotProvisioner ex_kube (ex_rest src) ident"

definition ex_options :: VolumeOptions where
  "ex_options =
     \<lparr> PersistentVolumeReclaimPolicy = ''Retain'',
       PVName = ''pv-new'',
       PVC = \<lparr> pvc_Namespace = ''ns1'',
               pvc_Annotations = [''snapshot'' \<mapsto> ''s1''],
               pvc_Spec = \<lparr> pvc_AccessModes = [''ReadWriteOnce''],
                            pvc_Selector = None,
                            pvc_Resources = \<lparr> Requests = [ResourceStorage \<mapsto> 2048] \<rparr> \<rparr> \<rparr>,
       Parameters = Map.empty \<rparr>"

text \<open>The same options, for a claim that requests no storage.\<close>

definition ex_options_unsized :: VolumeOptions where
  "ex_options_unsized =
     ex_options \<lparr> PVC := (PVC ex_options) \<lparr> pvc_Spec := (pvc_Spec (PVC ex_options))
       \<lparr> pvc_Resources := \<lparr> Requests = Map.empty \<rparr> \<rparr> \<rparr> \<rparr>"

definition ex_state :: "nat state" where
  "ex_state = \<lparr> events = [], world = 0 \<rparr>"

text \<open>
  A CRD-era plugin for the tag \<^verbatim>\<open>hostPath\<close>: the three methods of \<^verbatim>\<open>part_000\<close> and a
  \<^verbatim>\<open>VolumeDelete\<close> that answers \<open>del\<close>.
\<close>

definition ex_hostpath_crd :: "nat host \<Rightarrow> error option \<Rightarrow> nat VolumePlugin_crd" where
  "ex_hostpath_crd h del =
     \<lparr> SnapshotCreate = hostPath_SnapshotCreate h,
       SnapshotDelete = hostPath_SnapshotDelete h,
       SnapshotRestore = hostPath_SnapshotRestore h,
       VolumeDelete = (\<lambda>pv w. (del, w)) \<rparr>"

text \<open>A plugin whose restore answers with a location, two labels and the error \<open>err\<close>.\<close>

definition ex_labelled :: "error option \<Rightarrow> nat VolumePlugin_crd" where
  "ex_labelled err =
     \<lparr> SnapshotCreate = (\<lambda>spec w. ((None, Some (External ''not implemented'')), w)),
       SnapshotDelete = (\<lambda>src pv w. (None, w)),
       SnapshotRestore =
         (\<lambda>sd pvc pvName parameters w.
            ((Some (no_pv_source \<lparr> pvs_AWSElasticBlockStore := Some ''vol-1'' \<rparr>),
              [(''zone'', ''z1''), (provisionerIDAnn, ''other'')], err), Suc w)),
       VolumeDelete = (\<lambda>pv w. (None, w)) \<rparr>"

text \<open>Cloud packages whose provider initialisation answers \<open>init\<close>.\<close>

definition ex_cloudpkgs :: "cloud option \<times> error option \<Rightarrow> 'p \<Rightarrow> 'p cloudpkgs" where
  "ex_cloudpkgs init plugin =
     \<lparr> InitCloudProvider = (\<lambda>name config. init),
       aws_ProviderName = ''aws'',
       gce_ProviderName = ''gce'',
       openstack_ProviderName = ''openstack'',
       aws_ebs_GetPluginName = ''aws_ebs'',
       gce_pd_GetPluginName = ''gce-pd'',
       cinder_GetPluginName = ''cinder'',
       aws_ebs_RegisterPlugin = plugin,
       gce_pd_RegisterPlugin = plugin,
       cinder_RegisterPlugin = plugin,
       plugin_Init = (\<lambda>cl pl. pl) \<rparr>"

definition ex_flags :: "string \<Rightarrow> flags" where
  "ex_flags provider = \<lparr> cloudProvider = provider, cloudConfigFile = ''/etc/cloud.conf'' \<rparr>"

text \<open>The registries the two revisions build at startup on a host, with no cloud provider.\<close>

definition ex_registry_tpr :: "nat host \<Rightarrow> string \<rightharpoonup> nat VolumePlugin" where
  "ex_registry_tpr h =
     fst (buildVolumePlugins_tpr (ex_cloudpkgs (None, None) (hostpath_RegisterPlugin h)) h
            (ex_flags []) Map.empty ex_state)"

definition ex_registry_crd :: "nat host \<Rightarrow> string \<rightharpoonup> nat VolumePlugin_crd" where
  "ex_registry_crd h =
     fst (buildVolumePlugins_crd (ex_cloudpkgs (None, None) (ex_labelled None))
            (ex_hostpath_crd h None) (ex_flags []) Map.empty ex_state)"

section \<open>A file system and the archive tool\<close>
















section \<open>The hostpath plugin\<close>

text \<open>
  C10. For every volume spec with a populated \<^verbatim>\<open>HostPath\<close> source, the hostpath plugin's
  \<^verbatim>\<open>SnapshotCreate\<close> returns a descriptor that is not nil and holds the path of the archive: the
  staging directory \<^verbatim>\<open>/tmp/\<close>, an identifier generated in this call and \<^verbatim>\<open>.tgz\<close>. The error it
  returns with it is the outcome of the archive command, whatever it is; when the command
  fails, the caller receives the descriptor and the error together.
\<close>

theorem SnapshotCreate_returns_descriptor_and_tar_status:
  assumes "pvs_HostPath (pv_Source sp) = Some hp"
  shows "\<exists>uid w1 err w2.
           uuid_NewUUID h w = (uid, w1)
           \<and> exec_Run h [''tar'', ''czvf'', depot @ uid @ ''.tgz'', hp_Path hp] w1 = (err, w2)
           \<and> hostPath_SnapshotCreate h (Some sp) w =
               ((Some (no_source \<lparr> HostPath := Some \<lparr> snap_Path = depot @ uid @ ''.tgz'' \<rparr> \<rparr>),
                 err), w2)
           \<and> depot = ''/tmp/''"
proof -
  obtain uid w1 where u: "uuid_NewUUID h w = (uid, w1)"
    by (cases "uuid_NewUUID h w")
  obtain err w2
    where r: "exec_Run h [''tar'', ''czvf'', depot @ uid @ ''.tgz'', hp_Path hp] w1 = (err, w2)"
    by (cases "exec_Run h [''tar'', ''czvf'', depot @ uid @ ''.tgz'', hp_Path hp] w1")
  have "hostPath_SnapshotCreate h (Some sp) w =
          ((Some (no_source \<lparr> HostPath := Some \<lparr> snap_Path = depot @ uid @ ''.tgz'' \<rparr> \<rparr>),
            err), w2)"
    using assms u r by (simp add: hostPath_SnapshotCreate_def Let_def)
  with u r show ?thesis
    by (simp add: depot_def)
qed

theorem SnapshotCreate_returns_descriptor_and_tar_status_witness:
  "hostPath_SnapshotCreate (ex_host (Some ex_tar_error)) (Some (pv_Spec ex_pv0)) 0 =
     ((Some (no_source \<lparr> HostPath := Some \<lparr> snap_Path = ''/tmp/id.tgz'' \<rparr> \<rparr>),
       Some ex_tar_error), 1)"
proof -
  have hp: "pvs_HostPath (pv_Source (pv_Spec ex_pv0)) = Some \<lparr> hp_Path = ''/data'' \<rparr>"
    by (simp add: ex_pv0_def no_pv_source_def)
  from SnapshotCreate_returns_descriptor_and_tar_status
         [OF hp, of "ex_host (Some ex_tar_error)" 0]
  show ?thesis
    by (auto simp: ex_host_def depot_def)
qed

subsection \<open>A snapshot followed by a restore\<close>















section \<open>Provision\<close>

subsection \<open>After the resolution of the snapshot and of its data\<close>

lemma Provision_resolved:
  assumes "resolved k p options snapshotName snapshot snapshotData"
  shows "Provision restore k p options s =
    (case restore p (SnapshotDataName (vs_Spec snapshot)) snapshotData options
            (s\<lparr>events := events s @ resolution_events options snapshotName snapshot\<rparr>) of
       (Panic, s4) \<Rightarrow> (Panic, s4)
     | (Return (pvSrc, labels, err), s4) \<Rightarrow>
         (case pvSrc of
            None \<Rightarrow> (Return (None, Some (RestoreFailed snapshotName err)), s4)
          | Some src \<Rightarrow>
              if err \<noteq> None then (Return (None, Some (RestoreFailed snapshotName err)), s4)
              else (Return (Some (assemble_pv p options src labels), None),
                    emit (Glog Info ''successfully created Snapshot share %#v'') s4)))"
  using assms
  by (simp add: Provision_def resolved_def emit_def resolution_events_def RestoreFailed_def Let_def
      split: prod.split outcome.split option.split)

lemma ex_resolved: "resolved ex_pkg (ex_p src ident) ex_options ''s1'' ex_s1 (ex_d1 src)"
  by (simp add: resolved_def ex_pkg_def ex_p_def ex_options_def ex_s1_def ex_rest_def
      newSnapshotProvisioner_def NamespaceDefault_def)

lemma ex_registry_tpr_eq: "ex_registry_tpr h = [''hostPath'' \<mapsto> hostpath_RegisterPlugin h]"
  by (simp add: ex_registry_tpr_def buildVolumePlugins_tpr_def ex_flags_def hostpath_GetPluginName_def)

lemma ex_registry_crd_eq: "ex_registry_crd h = [''hostPath'' \<mapsto> ex_hostpath_crd h None]"
  by (simp add: ex_registry_crd_def buildVolumePlugins_crd_def ex_flags_def hostpath_GetPluginName_def)

subsection \<open>A restore that fails\<close>

text \<open>
  In the TPR revision, when the plugin's \<^verbatim>\<open>SnapshotRestore\<close> returns an error,
  \<^verbatim>\<open>snapshotRestore\<close> logs a warning and returns \<^verbatim>\<open>nil, nil, nil\<close> (line 89): the error does not
  leave the function, and \<^verbatim>\<open>Provision\<close> formats a nil error into its own.
\<close>

lemma snapshotRestore_tpr_plugin_error:
  assumes "GetSupportedVolumeFromSnapshotDataSpec k (sd_Spec snapshotData) = t" and "t \<noteq> []"
    and "volumePlugins t = Some plugin"
    and "SnapshotRestore plugin (Some snapshotData) (PVC options) (PVName options)
           (Parameters options) (world s) = ((pvSrc, labels, Some e), w1)"
  shows "snapshotRestore_tpr k volumePlugins p snapshotName snapshotData options s =
           (Return (None, [], None),
            s \<lparr> events := events s @ [PluginCall t M_SnapshotRestore,
                                        Glog Warning ''failed to snapshot %#v, err: %v''],
                world := w1 \<rparr>)"
  using assms by (simp add: snapshotRestore_tpr_def emit_def Let_def)

lemma Provision_tpr_plugin_error:
  assumes "resolved k p options snapshotName snapshot snapshotData"
    and "GetSupportedVolumeFromSnapshotDataSpec k (sd_Spec snapshotData) = t" and "t \<noteq> []"
    and "volumePlugins t = Some plugin"
    and "SnapshotRestore plugin (Some snapshotData) (PVC options) (PVName options)
           (Parameters options) (world s) = ((pvSrc, labels, Some e), w1)"
  shows "Provision_tpr k volumePlugins p options s =
           (Return (None, Some (RestoreFailed snapshotName None)),
            s \<lparr> events := events s @ resolution_events options snapshotName snapshot
                              @ [PluginCall t M_SnapshotRestore,
                                 Glog Warning ''failed to snapshot %#v, err: %v''],
                world := w1 \<rparr>)"
proof -
  let ?s3 = "s\<lparr>events := events s @ resolution_events options snapshotName snapshot\<rparr>"
  have "SnapshotRestore plugin (Some snapshotData) (PVC options) (PVName options)
           (Parameters options) (world ?s3) = ((pvSrc, labels, Some e), w1)"
    using assms(5) by simp
  then have "snapshotRestore_tpr k volumePlugins p (SnapshotDataName (vs_Spec snapshot))
          snapshotData options ?s3 =
        (Return (None, [], None),
         ?s3 \<lparr> events := events ?s3 @ [PluginCall t M_SnapshotRestore,
                                        Glog Warning ''failed to snapshot %#v, err: %v''],
               world := w1 \<rparr>)"
    using assms(2,3,4)
    by (intro snapshotRestore_tpr_plugin_error [where t = t and plugin = plugin
          and pvSrc = pvSrc and labels = labels and e = e]) simp_all
  then show ?thesis
    unfolding Provision_tpr_def Provision_resolved [OF assms(1)] by simp
qed

lemma ex_tag_hostpath:
  "GetSupportedVolumeFromSnapshotDataSpec ex_pkg (sd_Spec (ex_d1 ex_hostpath_source)) = ''hostPath''"
  by (simp add: ex_pkg_def spec_GetSupportedVolumeFromSnapshotDataSpec_def populated_def
      ex_d1_def ex_hostpath_source_def no_source_def ex_tag_of_def)

lemma ex_restore_fails:
  "hostPath_SnapshotRestore (ex_host (Some ex_tar_error)) (Some (ex_d1 ex_hostpath_source))
      pvc pvName parameters 0 =
    ((None, [], Some (Errorf ''failed to restore %s to %s: %v''
        [AStr ''/tmp/abc.tgz'', AStr ''/restore/id'', AErr (Some ex_tar_error)])), 1)"
  by (simp add: hostPath_SnapshotRestore_def ex_host_def ex_d1_def ex_hostpath_source_def
      no_source_def restorePoint_def)

lemma ex_resolution_events:
  "resolution_events ex_options ''s1'' ex_s1 =
     [Request GET VolumeSnapshotResourcePlural ''ns1'' ''s1'',
      Request GET VolumeSnapshotDataResourcePlural ''default'' ''d1'',
      Glog (InfoV 3) ''restore from VolumeSnapshotData %s'']"
  by (simp add: resolution_events_def ex_options_def ex_s1_def NamespaceDefault_def)

lemma ex_Provision_tpr_tar_fails:
  "Provision_tpr ex_pkg (ex_registry_tpr (ex_host (Some ex_tar_error)))
     (ex_p ex_hostpath_source ''prov-A'') ex_options ex_state =
   (Return (None, Some (RestoreFailed ''s1'' None)),
    \<lparr> events = [Request GET VolumeSnapshotResourcePlural ''ns1'' ''s1'',
                Request GET VolumeSnapshotDataResourcePlural ''default'' ''d1'',
                Glog (InfoV 3) ''restore from VolumeSnapshotData %s'',
                PluginCall ''hostPath'' M_SnapshotRestore,
                Glog Warning ''failed to snapshot %#v, err: %v''],
      world = 1 \<rparr>)"
proof -
  have r: "SnapshotRestore (hostpath_RegisterPlugin (ex_host (Some ex_tar_error)))
             (Some (ex_d1 ex_hostpath_source)) (PVC ex_options) (PVName ex_options)
             (Parameters ex_options) (world ex_state) =
           ((None, [], Some (Errorf ''failed to restore %s to %s: %v''
              [AStr ''/tmp/abc.tgz'', AStr ''/restore/id'', AErr (Some ex_tar_error)])), 1)"
    by (simp add: hostpath_RegisterPlugin_def ex_state_def ex_restore_fails)
  have "Provision_tpr ex_pkg (ex_registry_tpr (ex_host (Some ex_tar_error)))
          (ex_p ex_hostpath_source ''prov-A'') ex_options ex_state =
        (Return (None, Some (RestoreFailed ''s1'' None)),
         ex_state \<lparr> events := events ex_state @ resolution_events ex_options ''s1'' ex_s1
                              @ [PluginCall ''hostPath'' M_SnapshotRestore,
                                 Glog Warning ''failed to snapshot %#v, err: %v''],
                     world := 1 \<rparr>)"
    by (rule Provision_tpr_plugin_error [where t = "''hostPath''"
          and plugin = "hostpath_RegisterPlugin (ex_host (Some ex_tar_error))"
          and snapshot = ex_s1 and snapshotData = "ex_d1 ex_hostpath_source", OF _ _ _ _ r])
       (simp_all add: ex_registry_tpr_eq ex_resolved ex_tag_hostpath)
  then show ?thesis
    by (simp add: ex_resolution_events ex_state_def)
qed

text \<open>
  C1. The claim: when the snapshot and its data resolve and a plugin is found, and the plugin's
  \<^verbatim>\<open>SnapshotRestore\<close> returns an error, \<^verbatim>\<open>Provision\<close> fails with an error that wraps the plugin's.
  The code, at the input below: the hostpath plugin is registered, the archive tool exits
  with an error, the plugin returns an error that carries it, and \<^verbatim>\<open>Provision\<close> (TPR revision)
  fails with an error whose cause is nil.
\<close>

theorem Provision_tpr_loses_restore_cause:
  "fst (hostPath_SnapshotRestore (ex_host (Some ex_tar_error)) (Some (ex_d1 ex_hostpath_source))
          (PVC ex_options) (PVName ex_options) (Parameters ex_options) (world ex_state)) =
     (None, [], Some (Errorf ''failed to restore %s to %s: %v''
        [AStr ''/tmp/abc.tgz'', AStr ''/restore/id'', AErr (Some ex_tar_error)]))
   \<and> fst (Provision_tpr ex_pkg (ex_registry_tpr (ex_host (Some ex_tar_error)))
            (ex_p ex_hostpath_source ''prov-A'') ex_options ex_state) =
       Return (None, Some (Errorf ''failed to create a PV from snapshot %s: %v''
                             [AStr ''s1'', AErr None]))"
proof -
  have "world ex_state = 0"
    by (simp add: ex_state_def)
  then show ?thesis
    by (simp add: ex_Provision_tpr_tar_fails ex_restore_fails RestoreFailed_def)
qed

subsection \<open>The CRD revision of snapshotRestore\<close>

text \<open>
  In the CRD revision the volume whose spec gives the type tag is read from the API server.
  Once it has been read, \<^verbatim>\<open>pv\<close> is not nil, so the test \<^verbatim>\<open>err != nil && pv == nil\<close> of line 361
  fails whatever the plugin returned, and line 364 reads \<^verbatim>\<open>*pvSrc\<close>.
\<close>

lemma getPV_found:
  assumes "PersistentVolumeRef spec = Some r" and "ref_Name r \<noteq> []"
    and "pv_Get (client p) (ref_Name r) = (pv, None)"
  shows "getPVFromVolumeSnapshotDataSpec p spec s =
           ((pv, None), s \<lparr> events := events s @ [Request GET PersistentVolumes [] (ref_Name r)] \<rparr>)"
  using assms by (simp add: getPVFromVolumeSnapshotDataSpec_def emit_def Let_def)

lemma snapshotRestore_crd_nil_source:
  assumes "getPVFromVolumeSnapshotDataSpec p (sd_Spec snapshotData) s = ((Some pv, None), sa)"
    and "GetSupportedVolumeFromPVSpec k (pv_Spec pv) = t" and "t \<noteq> []"
    and "volumePlugins t = Some plugin"
    and "SnapshotRestore plugin (Some snapshotData) (PVC options) (PVName options)
           (Parameters options) (world sa) = ((None, labels, err), wa)"
  shows "snapshotRestore_crd k volumePlugins p snapshotName snapshotData options s =
           (Panic, sa \<lparr> events := events sa @ [PluginCall t M_SnapshotRestore], world := wa \<rparr>)"
  using assms by (simp add: snapshotRestore_crd_def emit_def Let_def)

lemma ex_getPV:
  "getPVFromVolumeSnapshotDataSpec (ex_p src ident) (sd_Spec (ex_d1 src)) s =
     ((Some ex_pv0, None), s \<lparr> events := events s @ [Request GET PersistentVolumes [] ''pv0''] \<rparr>)"
  by (simp add: getPVFromVolumeSnapshotDataSpec_def emit_def Let_def ex_p_def ex_d1_def
      newSnapshotProvisioner_def ex_kube_def)

lemma ex_pv0_tag: "GetSupportedVolumeFromPVSpec ex_pkg (pv_Spec ex_pv0) = ''hostPath''"
  by (simp add: ex_pkg_def spec_GetSupportedVolumeFromPVSpec_def populated_pv_def ex_pv0_def
      no_pv_source_def ex_tag_of_def)

text \<open>
  C9. The claim: in the CRD revision of \<^verbatim>\<open>snapshotRestore\<close>, when the plugin's \<^verbatim>\<open>SnapshotRestore\<close>
  returns an error and a nil source, the error branch is taken and nothing panics. The code,
  at the input below: the hostpath plugin is registered, the archive tool exits with an
  error, the plugin returns a nil source and an error, and \<^verbatim>\<open>snapshotRestore\<close> panics.
\<close>

theorem snapshotRestore_crd_panics_on_restore_error:
  "fst (hostPath_SnapshotRestore (ex_host (Some ex_tar_error)) (Some (ex_d1 ex_hostpath_source))
          (PVC ex_options) (PVName ex_options) (Parameters ex_options) (world ex_state)) =
     (None, [], Some (Errorf ''failed to restore %s to %s: %v''
        [AStr ''/tmp/abc.tgz'', AStr ''/restore/id'', AErr (Some ex_tar_error)]))
   \<and> fst (snapshotRestore_crd ex_pkg (ex_registry_crd (ex_host (Some ex_tar_error)))
            (ex_p ex_hostpath_source ''prov-A'') ''d1'' (ex_d1 ex_hostpath_source)
            ex_options ex_state) = Panic"
proof -
  have w: "world ex_state = 0" by (simp add: ex_state_def)
  let ?s0 = "ex_state \<lparr> events := events ex_state @ [Request GET PersistentVolumes [] ''pv0''] \<rparr>"
  have r: "SnapshotRestore (ex_hostpath_crd (ex_host (Some ex_tar_error)) None)
             (Some (ex_d1 ex_hostpath_source)) (PVC ex_options) (PVName ex_options)
             (Parameters ex_options) (world ?s0) =
           ((None, [], Some (Errorf ''failed to restore %s to %s: %v''
              [AStr ''/tmp/abc.tgz'', AStr ''/restore/id'', AErr (Some ex_tar_error)])), 1)"
    by (simp add: ex_hostpath_crd_def w ex_restore_fails)
  have "fst (snapshotRestore_crd ex_pkg (ex_registry_crd (ex_host (Some ex_tar_error)))
            (ex_p ex_hostpath_source ''prov-A'') ''d1'' (ex_d1 ex_hostpath_source)
            ex_options ex_state) = Panic"
    using snapshotRestore_crd_nil_source [where t = "''hostPath''" and pv = ex_pv0 and sa = ?s0
        and plugin = "ex_hostpath_crd (ex_host (Some ex_tar_error)) None", OF ex_getPV ex_pv0_tag _ _ r]
    by (simp add: ex_registry_crd_eq)
  then show ?thesis by (simp add: w ex_restore_fails)
qed

subsection \<open>A volume type that is not supported\<close>

lemma spec_accessor_none:
  "populated (sd_Source spec) = [] \<Longrightarrow> spec_GetSupportedVolumeFromSnapshotDataSpec tag_of spec = []"
  by (simp add: spec_GetSupportedVolumeFromSnapshotDataSpec_def)

lemma snapshotRestore_tpr_unsupported:
  assumes "GetSupportedVolumeFromSnapshotDataSpec k (sd_Spec snapshotData) = []
           \<or> volumePlugins (GetSupportedVolumeFromSnapshotDataSpec k (sd_Spec snapshotData)) = None"
  shows "\<exists>e. UnsupportedVolumeType e
           \<and> snapshotRestore_tpr k volumePlugins p snapshotName snapshotData options s =
               (Return (None, [], Some e), s)"
  using assms by (auto simp: snapshotRestore_tpr_def UnsupportedVolumeType_def Let_def)

lemma snapshotRestore_crd_unsupported:
  assumes "getPVFromVolumeSnapshotDataSpec p (sd_Spec snapshotData) s = ((Some pv, None), sa)"
    and "GetSupportedVolumeFromPVSpec k (pv_Spec pv) = []
         \<or> volumePlugins (GetSupportedVolumeFromPVSpec k (pv_Spec pv)) = None"
  shows "\<exists>e. UnsupportedVolumeType e
           \<and> snapshotRestore_crd k volumePlugins p snapshotName snapshotData options s =
               (Return (None, [], Some e), sa)"
  using assms by (auto simp: snapshotRestore_crd_def UnsupportedVolumeType_def Let_def)

text \<open>
  C5, as amended. Let the snapshot and its data resolve. In the TPR revision, when no variant
  of the data's source union is populated (the accessor being the one of the design), or
  when no plugin is registered for the tag of the data, \<^verbatim>\<open>Provision\<close> fails, the cause of the
  failure is \<open>UnsupportedVolumeType\<close>, and all it has done is to read the two records and to
  log: no plugin is called. In the CRD revision the tag is that of the volume the data refers
  to, read from the API server: when that tag is empty or has no registered plugin,
  \<^verbatim>\<open>Provision\<close> fails in the same way, having read the two records and the volume.
\<close>

theorem Provision_unsupported_volume_type:
  assumes "resolved k p options snapshotName snapshot snapshotData"
  shows "((GetSupportedVolumeFromSnapshotDataSpec k = spec_GetSupportedVolumeFromSnapshotDataSpec tag_of
             \<and> populated (sd_Source (sd_Spec snapshotData)) = []
           \<or> vp (GetSupportedVolumeFromSnapshotDataSpec k (sd_Spec snapshotData)) = None)
          \<longrightarrow> (\<exists>e. UnsupportedVolumeType e
                 \<and> Provision_tpr k vp p options s =
                     (Return (None, Some (RestoreFailed snapshotName (Some e))),
                      s \<lparr> events := events s @ resolution_events options snapshotName snapshot \<rparr>)))
       \<and> (\<forall>r pv. PersistentVolumeRef (sd_Spec snapshotData) = Some r \<and> ref_Name r \<noteq> []
                 \<and> pv_Get (client p) (ref_Name r) = (Some pv, None)
                 \<and> (GetSupportedVolumeFromPVSpec k (pv_Spec pv) = []
                    \<or> vp' (GetSupportedVolumeFromPVSpec k (pv_Spec pv)) = None)
          \<longrightarrow> (\<exists>e. UnsupportedVolumeType e
                 \<and> Provision_crd k vp' p options s =
                     (Return (None, Some (RestoreFailed snapshotName (Some e))),
                      s \<lparr> events := events s @ resolution_events options snapshotName snapshot
                                        @ [Request GET PersistentVolumes [] (ref_Name r)] \<rparr>)))"
proof (intro conjI impI allI)
  let ?s3 = "s \<lparr> events := events s @ resolution_events options snapshotName snapshot \<rparr>"
  assume "GetSupportedVolumeFromSnapshotDataSpec k = spec_GetSupportedVolumeFromSnapshotDataSpec tag_of
             \<and> populated (sd_Source (sd_Spec snapshotData)) = []
           \<or> vp (GetSupportedVolumeFromSnapshotDataSpec k (sd_Spec snapshotData)) = None"
  then have "GetSupportedVolumeFromSnapshotDataSpec k (sd_Spec snapshotData) = []
           \<or> vp (GetSupportedVolumeFromSnapshotDataSpec k (sd_Spec snapshotData)) = None"
    by (auto simp: spec_accessor_none)
  from snapshotRestore_tpr_unsupported [where volumePlugins = vp and k = k
         and snapshotData = snapshotData, OF this]
  obtain e where "UnsupportedVolumeType e"
    and "snapshotRestore_tpr k vp p (SnapshotDataName (vs_Spec snapshot)) snapshotData options ?s3 =
           (Return (None, [], Some e), ?s3)"
    by blast
  then show "\<exists>e. UnsupportedVolumeType e
                 \<and> Provision_tpr k vp p options s =
                     (Return (None, Some (RestoreFailed snapshotName (Some e))), ?s3)"
    unfolding Provision_tpr_def Provision_resolved [OF assms] by auto
next
  fix r :: ObjectReference and pv :: PersistentVolume
  let ?s3 = "s \<lparr> events := events s @ resolution_events options snapshotName snapshot \<rparr>"
  let ?s4 = "s \<lparr> events := events s @ resolution_events options snapshotName snapshot
                                        @ [Request GET PersistentVolumes [] (ref_Name r)] \<rparr>"
  assume a: "PersistentVolumeRef (sd_Spec snapshotData) = Some r \<and> ref_Name r \<noteq> []
                 \<and> pv_Get (client p) (ref_Name r) = (Some pv, None)
                 \<and> (GetSupportedVolumeFromPVSpec k (pv_Spec pv) = []
                    \<or> vp' (GetSupportedVolumeFromPVSpec k (pv_Spec pv)) = None)"
  then have "getPVFromVolumeSnapshotDataSpec p (sd_Spec snapshotData) ?s3 = ((Some pv, None), ?s4)"
    by (simp add: getPV_found)
  from snapshotRestore_crd_unsupported [where volumePlugins = vp' and k = k, OF this] a
  obtain e where "UnsupportedVolumeType e"
    and "snapshotRestore_crd k vp' p (SnapshotDataName (vs_Spec snapshot)) snapshotData options ?s3 =
           (Return (None, [], Some e), ?s4)"
    by blast
  then show "\<exists>e. UnsupportedVolumeType e
                 \<and> Provision_crd k vp' p options s =
                     (Return (None, Some (RestoreFailed snapshotName (Some e))), ?s4)"
    unfolding Provision_crd_def Provision_resolved [OF assms] by auto
qed

lemma ex_no_source_unpopulated: "populated (sd_Source (sd_Spec (ex_d1 no_source))) = []"
  by (simp add: populated_def ex_d1_def no_source_def)

theorem Provision_unsupported_volume_type_witness:
  "(\<exists>e. UnsupportedVolumeType e
      \<and> fst (Provision_tpr ex_pkg (ex_registry_tpr (ex_host None)) (ex_p no_source ''prov-A'')
               ex_options ex_state) =
          Return (None, Some (RestoreFailed ''s1'' (Some e))))
   \<and> (\<exists>e. UnsupportedVolumeType e
      \<and> fst (Provision_crd ex_pkg (Map.empty :: string \<rightharpoonup> nat VolumePlugin_crd)
               (ex_p ex_hostpath_source ''prov-A'') ex_options ex_state) =
          Return (None, Some (RestoreFailed ''s1'' (Some e))))"
proof -
  have t: "GetSupportedVolumeFromSnapshotDataSpec ex_pkg =
             spec_GetSupportedVolumeFromSnapshotDataSpec ex_tag_of"
    by (simp add: ex_pkg_def)
  have c: "PersistentVolumeRef (sd_Spec (ex_d1 ex_hostpath_source)) = Some \<lparr> ref_Name = ''pv0'' \<rparr>"
      "pv_Get (client (ex_p ex_hostpath_source ''prov-A'')) ''pv0'' = (Some ex_pv0, None)"
    by (simp_all add: ex_d1_def ex_p_def newSnapshotProvisioner_def ex_kube_def)
  from Provision_unsupported_volume_type
         [OF ex_resolved [of no_source "''prov-A''"], where tag_of = ex_tag_of
            and vp = "ex_registry_tpr (ex_host None)"
            and vp' = "Map.empty :: string \<rightharpoonup> nat VolumePlugin_crd" and s = ex_state]
       t ex_no_source_unpopulated
  have 1: "\<exists>e. UnsupportedVolumeType e
      \<and> fst (Provision_tpr ex_pkg (ex_registry_tpr (ex_host None)) (ex_p no_source ''prov-A'')
               ex_options ex_state) =
          Return (None, Some (RestoreFailed ''s1'' (Some e)))"
    by auto
  from Provision_unsupported_volume_type
         [OF ex_resolved [of ex_hostpath_source "''prov-A''"], where tag_of = ex_tag_of
            and vp = "ex_registry_tpr (ex_host None)"
            and vp' = "Map.empty :: string \<rightharpoonup> nat VolumePlugin_crd" and s = ex_state] c
  have 2: "\<exists>e. UnsupportedVolumeType e
      \<and> fst (Provision_crd ex_pkg (Map.empty :: string \<rightharpoonup> nat VolumePlugin_crd)
               (ex_p ex_hostpath_source ''prov-A'') ex_options ex_state) =
          Return (None, Some (RestoreFailed ''s1'' (Some e)))"
    by fastforce
  from 1 2 show ?thesis by blast
qed

lemma ex_restore_unpopulated:
  "hostPath_SnapshotRestore h (Some (ex_d1 no_source)) pvc pvName parameters w =
     ((None, [], Some (Errorf ''failed to retrieve Snapshot spec'' [])), w)"
  by (simp add: hostPath_SnapshotRestore_def ex_d1_def no_source_def)

text \<open>
  C5 as stated fails in the CRD revision, where the source union of the data does not decide
  the tag: the data below has no populated variant and refers to a hostpath volume, and the
  plugin registered for \<^verbatim>\<open>hostPath\<close> is called. (The plugin returns an error and a nil source,
  on which this revision panics.)
\<close>

theorem Provision_crd_restores_from_unpopulated_source:
  "populated (sd_Source (sd_Spec (ex_d1 no_source))) = []
   \<and> Provision_crd ex_pkg (ex_registry_crd (ex_host None)) (ex_p no_source ''prov-A'')
        ex_options ex_state =
       (Panic,
        \<lparr> events = [Request GET VolumeSnapshotResourcePlural ''ns1'' ''s1'',
                    Request GET VolumeSnapshotDataResourcePlural ''default'' ''d1'',
                    Glog (InfoV 3) ''restore from VolumeSnapshotData %s'',
                    Request GET PersistentVolumes [] ''pv0'',
                    PluginCall ''hostPath'' M_SnapshotRestore],
          world = 0 \<rparr>)"
proof -
  let ?s3 = "ex_state \<lparr> events := events ex_state @ resolution_events ex_options ''s1'' ex_s1 \<rparr>"
  let ?s4 = "?s3 \<lparr> events := events ?s3 @ [Request GET PersistentVolumes [] ''pv0''] \<rparr>"
  have r: "SnapshotRestore (ex_hostpath_crd (ex_host None) None)
             (Some (ex_d1 no_source)) (PVC ex_options) (PVName ex_options)
             (Parameters ex_options) (world ?s4) =
           ((None, [], Some (Errorf ''failed to retrieve Snapshot spec'' [])), 0)"
    by (simp add: ex_hostpath_crd_def ex_restore_unpopulated ex_state_def)
  have "snapshotRestore_crd ex_pkg (ex_registry_crd (ex_host None)) (ex_p no_source ''prov-A'')
          (SnapshotDataName (vs_Spec ex_s1)) (ex_d1 no_source) ex_options ?s3 =
        (Panic, ?s4 \<lparr> events := events ?s4 @ [PluginCall ''hostPath'' M_SnapshotRestore],
                     world := 0 \<rparr>)"
    using snapshotRestore_crd_nil_source [where t = "''hostPath''" and pv = ex_pv0 and sa = ?s4
        and plugin = "ex_hostpath_crd (ex_host None) None", OF ex_getPV ex_pv0_tag _ _ r]
    by (simp add: ex_registry_crd_eq)
  then have "Provision_crd ex_pkg (ex_registry_crd (ex_host None)) (ex_p no_source ''prov-A'')
        ex_options ex_state =
       (Panic, ?s4 \<lparr> events := events ?s4 @ [PluginCall ''hostPath'' M_SnapshotRestore],
                     world := 0 \<rparr>)"
    unfolding Provision_crd_def Provision_resolved [OF ex_resolved] by simp
  then show ?thesis
    by (simp add: ex_no_source_unpopulated resolution_events_def ex_state_def ex_options_def
        ex_s1_def NamespaceDefault_def)
qed

subsection \<open>The volume that a successful Provision returns\<close>

lemma range_labels_dom: "dom (range_labels ls m) = dom m \<union> fst ` set ls"
proof (induction ls arbitrary: m)
  case Nil
  then show ?case by simp
next
  case (Cons a ls)
  obtain k v where a: "a = (k, v)" by (cases a)
  have "dom (range_labels (a # ls) m) = dom (range_labels ls (m(k \<mapsto> v)))"
    by (simp add: a)
  also have "\<dots> = dom (m(k \<mapsto> v)) \<union> fst ` set ls"
    by (rule Cons.IH)
  also have "\<dots> = dom m \<union> fst ` set (a # ls)"
    by (auto simp: a)
  finally show ?case .
qed

lemma range_labels_map_of:
  "distinct (map fst ls) \<Longrightarrow> range_labels ls m = m ++ map_of ls"
proof (induction ls arbitrary: m)
  case Nil
  then show ?case by simp
next
  case (Cons a ls)
  obtain k v where a: "a = (k, v)" by (cases a)
  from Cons.prems a have k: "map_of ls k = None" and d: "distinct (map fst ls)"
    by (auto simp: map_of_eq_None_iff)
  have "(m(k \<mapsto> v) ++ map_of ls) x = (m ++ map_of (a # ls)) x" for x
    using k a by (cases "x = k") (simp_all add: map_add_def split: option.splits)
  then have "m(k \<mapsto> v) ++ map_of ls = m ++ map_of (a # ls)"
    by (rule ext)
  moreover have "range_labels (a # ls) m = range_labels ls (m(k \<mapsto> v))"
    by (simp add: a)
  moreover have "range_labels ls (m(k \<mapsto> v)) = m(k \<mapsto> v) ++ map_of ls"
    using d by (rule Cons.IH)
  ultimately show ?case by (simp only:)
qed

lemma assemble_pv_volume:
  assumes "pv = assemble_pv p options src ls"
  shows "pv_Source (pv_Spec pv) = src
         \<and> pv_Capacity (pv_Spec pv) =
             [''storage'' \<mapsto>
                (case Requests (pvc_Resources (pvc_Spec (PVC options))) ''storage'' of
                   None \<Rightarrow> 0 | Some q \<Rightarrow> q)]
         \<and> pv_AccessModes (pv_Spec pv) = pvc_AccessModes (pvc_Spec (PVC options))
         \<and> pv_ReclaimPolicy (pv_Spec pv) = PersistentVolumeReclaimPolicy options
         \<and> pv_Annotations pv = [provisionerIDAnn \<mapsto> identity p]
         \<and> pv_Name pv = PVName options
         \<and> pv_Labels pv = range_labels ls Map.empty
         \<and> dom (pv_Labels pv) = fst ` set ls
         \<and> (distinct (map fst ls) \<longrightarrow> pv_Labels pv = map_of ls)"
  using assms
  by (cases ls)
     (simp_all add: assemble_pv_def Let_def requested_storage_def ResourceStorage_def
        range_labels_dom range_labels_map_of del: range_labels.simps)

lemma Provision_success:
  assumes "Provision restore k p options s = (Return (Some pv, None), s')"
  shows "\<exists>snapshotName snapshot snapshotData src ls sb.
           resolved k p options snapshotName snapshot snapshotData
           \<and> restore p (SnapshotDataName (vs_Spec snapshot)) snapshotData options
                (s \<lparr> events := events s @ resolution_events options snapshotName snapshot \<rparr>) =
               (Return (Some src, ls, None), sb)
           \<and> pv = assemble_pv p options src ls
           \<and> world s' = world sb"
  using assms unfolding Provision_def resolved_def resolution_events_def emit_def Let_def
  by (fastforce split: if_splits option.splits sum.splits prod.splits outcome.splits)

lemma snapshotRestore_tpr_success:
  assumes "snapshotRestore_tpr k vp p n sd options sa = (Return (Some src, ls, e), sb)"
  shows "\<exists>plugin. vp (GetSupportedVolumeFromSnapshotDataSpec k (sd_Spec sd)) = Some plugin
           \<and> SnapshotRestore plugin (Some sd) (PVC options) (PVName options) (Parameters options)
                (world sa) = ((Some src, ls, None), world sb)"
  using assms unfolding snapshotRestore_tpr_def Let_def emit_def
  by (auto split: if_splits option.splits prod.splits)

lemma snapshotRestore_crd_success:
  assumes "snapshotRestore_crd k vp p n sd options sa = (Return (Some src, ls, e), sb)"
  shows "\<exists>r pvv plugin err.
           PersistentVolumeRef (sd_Spec sd) = Some r
           \<and> pv_Get (client p) (ref_Name r) = (Some pvv, None)
           \<and> vp (GetSupportedVolumeFromPVSpec k (pv_Spec pvv)) = Some plugin
           \<and> SnapshotRestore plugin (Some sd) (PVC options) (PVName options) (Parameters options)
                (world sa) = ((Some src, ls, err), world sb)"
  using assms unfolding snapshotRestore_crd_def getPVFromVolumeSnapshotDataSpec_def Let_def emit_def
  by (fastforce split: if_splits option.splits prod.splits)

text \<open>
  C4. When \<^verbatim>\<open>Provision\<close> succeeds and returns the volume \<open>pv\<close>, the snapshot named by the claim
  and its data have resolved, and the plugin registered for the volume type tag (in the TPR
  revision the tag of the snapshot data, in the CRD revision the tag of the volume the data
  refers to) has been called with that data, the claim, the name and the parameters of the
  options, in the world before the call; it has returned a location \<open>src\<close> and labels \<open>ls\<close>
  and left the world in which \<^verbatim>\<open>Provision\<close> returns. The volume has the location \<open>src\<close>, for
  capacity the storage the claim requests (zero when it requests none), the access modes of
  the claim, the reclaim policy and the name of the options, and for annotations the identity
  of this provisioner under the ownership key and nothing else. Its labels are the plugin's:
  the loop assigns every entry of \<open>ls\<close> into an empty label map, the keys of the result are the
  keys of \<open>ls\<close>, and the result is the plugin's map when no key occurs twice in \<open>ls\<close>, as
  in the entries of a Go map. The labels go to the label map only, so that no label, whatever
  its key, overwrites the ownership annotation.
\<close>

theorem Provision_success_volume:
  "(Provision_tpr k vp p options s = (Return (Some pv, None), s') \<longrightarrow>
      (\<exists>snapshotName snapshot snapshotData plugin src ls.
          resolved k p options snapshotName snapshot snapshotData
          \<and> vp (GetSupportedVolumeFromSnapshotDataSpec k (sd_Spec snapshotData)) = Some plugin
          \<and> SnapshotRestore plugin (Some snapshotData) (PVC options) (PVName options)
               (Parameters options) (world s) = ((Some src, ls, None), world s')
          \<and> pv_Source (pv_Spec pv) = src
            \<and> pv_Capacity (pv_Spec pv) =
                [''storage'' \<mapsto>
                   (case Requests (pvc_Resources (pvc_Spec (PVC options))) ''storage'' of
                      None \<Rightarrow> 0 | Some q \<Rightarrow> q)]
            \<and> pv_AccessModes (pv_Spec pv) = pvc_AccessModes (pvc_Spec (PVC options))
            \<and> pv_ReclaimPolicy (pv_Spec pv) = PersistentVolumeReclaimPolicy options
            \<and> pv_Annotations pv = [provisionerIDAnn \<mapsto> identity p]
            \<and> pv_Name pv = PVName options
            \<and> pv_Labels pv = range_labels ls Map.empty
            \<and> dom (pv_Labels pv) = fst ` set ls
            \<and> (distinct (map fst ls) \<longrightarrow> pv_Labels pv = map_of ls)))
   \<and> (Provision_crd k vp p options s = (Return (Some pv, None), s') \<longrightarrow>
      (\<exists>snapshotName snapshot snapshotData r pvv plugin src ls err.
          resolved k p options snapshotName snapshot snapshotData
          \<and> PersistentVolumeRef (sd_Spec snapshotData) = Some r
          \<and> pv_Get (client p) (ref_Name r) = (Some pvv, None)
          \<and> vp (GetSupportedVolumeFromPVSpec k (pv_Spec pvv)) = Some plugin
          \<and> SnapshotRestore plugin (Some snapshotData) (PVC options) (PVName options)
               (Parameters options) (world s) = ((Some src, ls, err), world s')
          \<and> pv_Source (pv_Spec pv) = src
            \<and> pv_Capacity (pv_Spec pv) =
                [''storage'' \<mapsto>
                   (case Requests (pvc_Resources (pvc_Spec (PVC options))) ''storage'' of
                      None \<Rightarrow> 0 | Some q \<Rightarrow> q)]
            \<and> pv_AccessModes (pv_Spec pv) = pvc_AccessModes (pvc_Spec (PVC options))
            \<and> pv_ReclaimPolicy (pv_Spec pv) = PersistentVolumeReclaimPolicy options
            \<and> pv_Annotations pv = [provisionerIDAnn \<mapsto> identity p]
            \<and> pv_Name pv = PVName options
            \<and> pv_Labels pv = range_labels ls Map.empty
            \<and> dom (pv_Labels pv) = fst ` set ls
            \<and> (distinct (map fst ls) \<longrightarrow> pv_Labels pv = map_of ls)))"
proof (intro conjI impI)
  assume "Provision_tpr k vp p options s = (Return (Some pv, None), s')"
  then obtain snapshotName snapshot snapshotData src ls sb
    where 1: "resolved k p options snapshotName snapshot snapshotData"
      and 2: "snapshotRestore_tpr k vp p (SnapshotDataName (vs_Spec snapshot)) snapshotData options
                (s \<lparr> events := events s @ resolution_events options snapshotName snapshot \<rparr>) =
              (Return (Some src, ls, None), sb)"
      and 3: "pv = assemble_pv p options src ls" and 4: "world s' = world sb"
    unfolding Provision_tpr_def by (blast dest: Provision_success)
  from snapshotRestore_tpr_success [OF 2] obtain plugin
    where 5: "vp (GetSupportedVolumeFromSnapshotDataSpec k (sd_Spec snapshotData)) = Some plugin"
      and 6: "SnapshotRestore plugin (Some snapshotData) (PVC options) (PVName options)
               (Parameters options) (world s) = ((Some src, ls, None), world s')"
    unfolding 4 by auto
  from 1 5 6 assemble_pv_volume [OF 3]
  show "\<exists>snapshotName snapshot snapshotData plugin src ls.
          resolved k p options snapshotName snapshot snapshotData
          \<and> vp (GetSupportedVolumeFromSnapshotDataSpec k (sd_Spec snapshotData)) = Some plugin
          \<and> SnapshotRestore plugin (Some snapshotData) (PVC options) (PVName options)
               (Parameters options) (world s) = ((Some src, ls, None), world s')
          \<and> pv_Source (pv_Spec pv) = src
            \<and> pv_Capacity (pv_Spec pv) =
                [''storage'' \<mapsto>
                   (case Requests (pvc_Resources (pvc_Spec (PVC options))) ''storage'' of
                      None \<Rightarrow> 0 | Some q \<Rightarrow> q)]
            \<and> pv_AccessModes (pv_Spec pv) = pvc_AccessModes (pvc_Spec (PVC options))
            \<and> pv_ReclaimPolicy (pv_Spec pv) = PersistentVolumeReclaimPolicy options
            \<and> pv_Annotations pv = [provisionerIDAnn \<mapsto> identity p]
            \<and> pv_Name pv = PVName options
            \<and> pv_Labels pv = range_labels ls Map.empty
            \<and> dom (pv_Labels pv) = fst ` set ls
            \<and> (distinct (map fst ls) \<longrightarrow> pv_Labels pv = map_of ls)"
    by (intro exI [of _ snapshotName] exI [of _ snapshot] exI [of _ snapshotData]
          exI [of _ plugin] exI [of _ src] exI [of _ ls]) blast
next
  assume "Provision_crd k vp p options s = (Return (Some pv, None), s')"
  then obtain snapshotName snapshot snapshotData src ls sb
    where 1: "resolved k p options snapshotName snapshot snapshotData"
      and 2: "snapshotRestore_crd k vp p (SnapshotDataName (vs_Spec snapshot)) snapshotData options
                (s \<lparr> events := events s @ resolution_events options snapshotName snapshot \<rparr>) =
              (Return (Some src, ls, None), sb)"
      and 3: "pv = assemble_pv p options src ls" and 4: "world s' = world sb"
    unfolding Provision_crd_def by (blast dest: Provision_success)
  from snapshotRestore_crd_success [OF 2] obtain r pvv plugin err
    where 5: "PersistentVolumeRef (sd_Spec snapshotData) = Some r"
        "pv_Get (client p) (ref_Name r) = (Some pvv, None)"
        "vp (GetSupportedVolumeFromPVSpec k (pv_Spec pvv)) = Some plugin"
      and 6: "SnapshotRestore plugin (Some snapshotData) (PVC options) (PVName options)
               (Parameters options) (world s) = ((Some src, ls, err), world s')"
    unfolding 4 by auto
  from 1 5 6 assemble_pv_volume [OF 3]
  show "\<exists>snapshotName snapshot snapshotData r pvv plugin src ls err.
          resolved k p options snapshotName snapshot snapshotData
          \<and> PersistentVolumeRef (sd_Spec snapshotData) = Some r
          \<and> pv_Get (client p) (ref_Name r) = (Some pvv, None)
          \<and> vp (GetSupportedVolumeFromPVSpec k (pv_Spec pvv)) = Some plugin
          \<and> SnapshotRestore plugin (Some snapshotData) (PVC options) (PVName options)
               (Parameters options) (world s) = ((Some src, ls, err), world s')
          \<and> pv_Source (pv_Spec pv) = src
            \<and> pv_Capacity (pv_Spec pv) =
                [''storage'' \<mapsto>
                   (case Requests (pvc_Resources (pvc_Spec (PVC options))) ''storage'' of
                      None \<Rightarrow> 0 | Some q \<Rightarrow> q)]
            \<and> pv_AccessModes (pv_Spec pv) = pvc_AccessModes (pvc_Spec (PVC options))
            \<and> pv_ReclaimPolicy (pv_Spec pv) = PersistentVolumeReclaimPolicy options
            \<and> pv_Annotations pv = [provisionerIDAnn \<mapsto> identity p]
            \<and> pv_Name pv = PVName options
            \<and> pv_Labels pv = range_labels ls Map.empty
            \<and> dom (pv_Labels pv) = fst ` set ls
            \<and> (distinct (map fst ls) \<longrightarrow> pv_Labels pv = map_of ls)"
    by (intro exI [of _ snapshotName] exI [of _ snapshot] exI [of _ snapshotData]
          exI [of _ r] exI [of _ pvv] exI [of _ plugin] exI [of _ src] exI [of _ ls]
          exI [of _ err]) blast
qed

lemma snapshotRestore_tpr_plugin_ok:
  assumes "GetSupportedVolumeFromSnapshotDataSpec k (sd_Spec snapshotData) = t" and "t \<noteq> []"
    and "volumePlugins t = Some plugin"
    and "SnapshotRestore plugin (Some snapshotData) (PVC options) (PVName options)
           (Parameters options) (world s) = ((Some src, ls, None), wa)"
  shows "snapshotRestore_tpr k volumePlugins p snapshotName snapshotData options s =
           (Return (Some src, ls, None),
            s \<lparr> events := events s @ [PluginCall t M_SnapshotRestore,
                                        Glog Info ''snapshot %#v to snap %#v''],
                world := wa \<rparr>)"
  using assms by (simp add: snapshotRestore_tpr_def emit_def Let_def)



lemma snapshotRestore_crd_plugin_ok:
  assumes "getPVFromVolumeSnapshotDataSpec p (sd_Spec snapshotData) s = ((Some pvv, None), sa)"
    and "GetSupportedVolumeFromPVSpec k (pv_Spec pvv) = t" and "t \<noteq> []"
    and "volumePlugins t = Some plugin"
    and "SnapshotRestore plugin (Some snapshotData) (PVC options) (PVName options)
           (Parameters options) (world sa) = ((Some src, ls, err), wa)"
  shows "snapshotRestore_crd k volumePlugins p snapshotName snapshotData options s =
           (Return (Some src, ls, None),
            sa \<lparr> events := events sa @ [PluginCall t M_SnapshotRestore,
                                          Glog Info ''snapshot %#v to snap %#v''],
                 world := wa \<rparr>)"
  using assms by (simp add: snapshotRestore_crd_def emit_def Let_def)

lemma ex_resolved_unsized:
  "resolved ex_pkg (ex_p src ident) ex_options_unsized ''s1'' ex_s1 (ex_d1 src)"
  by (simp add: resolved_def ex_pkg_def ex_p_def ex_options_unsized_def ex_options_def ex_s1_def
      ex_rest_def newSnapshotProvisioner_def NamespaceDefault_def)

lemma ex_labelled_restore:
  "SnapshotRestore (ex_labelled err) sd pvc pvName parameters w =
     ((Some (no_pv_source \<lparr> pvs_AWSElasticBlockStore := Some ''vol-1'' \<rparr>),
       [(''zone'', ''z1''), (provisionerIDAnn, ''other'')], err), Suc w)"
  by (simp add: ex_labelled_def)

lemma ex_Provision_tpr_labelled:
  "fst (Provision_tpr ex_pkg [''hostPath'' \<mapsto> ex_labelled None]
          (ex_p ex_hostpath_source ''prov-A'') ex_options ex_state) =
     Return (Some (assemble_pv (ex_p ex_hostpath_source ''prov-A'') ex_options
                     (no_pv_source \<lparr> pvs_AWSElasticBlockStore := Some ''vol-1'' \<rparr>)
                     [(''zone'', ''z1''), (provisionerIDAnn, ''other'')]), None)"
proof -
  let ?s3 = "ex_state \<lparr> events := events ex_state @ resolution_events ex_options ''s1'' ex_s1 \<rparr>"
  have "snapshotRestore_tpr ex_pkg [''hostPath'' \<mapsto> ex_labelled None]
          (ex_p ex_hostpath_source ''prov-A'') (SnapshotDataName (vs_Spec ex_s1))
          (ex_d1 ex_hostpath_source) ex_options ?s3 =
        (Return (Some (no_pv_source \<lparr> pvs_AWSElasticBlockStore := Some ''vol-1'' \<rparr>),
                 [(''zone'', ''z1''), (provisionerIDAnn, ''other'')], None),
         ?s3 \<lparr> events := events ?s3 @ [PluginCall ''hostPath'' M_SnapshotRestore,
                                        Glog Info ''snapshot %#v to snap %#v''],
               world := Suc (world ?s3) \<rparr>)"
    using snapshotRestore_tpr_plugin_ok [where t = "''hostPath''" and plugin = "ex_labelled None"
        and volumePlugins = "[''hostPath'' \<mapsto> ex_labelled None]",
        OF ex_tag_hostpath _ _ ex_labelled_restore]
    by simp
  then show ?thesis
    unfolding Provision_tpr_def Provision_resolved [OF ex_resolved]
    by simp
qed

lemma ex_Provision_crd_labelled:
  "fst (Provision_crd ex_pkg [''hostPath'' \<mapsto> ex_labelled None]
          (ex_p ex_hostpath_source ''prov-A'') ex_options_unsized ex_state) =
     Return (Some (assemble_pv (ex_p ex_hostpath_source ''prov-A'') ex_options_unsized
                     (no_pv_source \<lparr> pvs_AWSElasticBlockStore := Some ''vol-1'' \<rparr>)
                     [(''zone'', ''z1''), (provisionerIDAnn, ''other'')]), None)"
proof -
  let ?s3 = "ex_state \<lparr> events := events ex_state
                @ resolution_events ex_options_unsized ''s1'' ex_s1 \<rparr>"
  let ?s4 = "?s3 \<lparr> events := events ?s3 @ [Request GET PersistentVolumes [] ''pv0''] \<rparr>"
  have "snapshotRestore_crd ex_pkg [''hostPath'' \<mapsto> ex_labelled None]
          (ex_p ex_hostpath_source ''prov-A'') (SnapshotDataName (vs_Spec ex_s1))
          (ex_d1 ex_hostpath_source) ex_options_unsized ?s3 =
        (Return (Some (no_pv_source \<lparr> pvs_AWSElasticBlockStore := Some ''vol-1'' \<rparr>),
                 [(''zone'', ''z1''), (provisionerIDAnn, ''other'')], None),
         ?s4 \<lparr> events := events ?s4 @ [PluginCall ''hostPath'' M_SnapshotRestore,
                                        Glog Info ''snapshot %#v to snap %#v''],
               world := Suc (world ?s4) \<rparr>)"
    using snapshotRestore_crd_plugin_ok [where t = "''hostPath''" and plugin = "ex_labelled None"
        and volumePlugins = "[''hostPath'' \<mapsto> ex_labelled None]" and pvv = ex_pv0
        and sa = ?s4, OF ex_getPV ex_pv0_tag _ _ ex_labelled_restore]
    by simp
  then show ?thesis
    unfolding Provision_crd_def Provision_resolved [OF ex_resolved_unsized]
    by simp
qed

theorem Provision_success_volume_witness:
  "(\<exists>pv. fst (Provision_tpr ex_pkg [''hostPath'' \<mapsto> ex_labelled None]
               (ex_p ex_hostpath_source ''prov-A'') ex_options ex_state) = Return (Some pv, None)
      \<and> pv_Source (pv_Spec pv) = no_pv_source \<lparr> pvs_AWSElasticBlockStore := Some ''vol-1'' \<rparr>
      \<and> pv_Capacity (pv_Spec pv) = [''storage'' \<mapsto> 2048]
      \<and> pv_AccessModes (pv_Spec pv) = [''ReadWriteOnce'']
      \<and> pv_ReclaimPolicy (pv_Spec pv) = ''Retain''
      \<and> pv_Annotations pv = [provisionerIDAnn \<mapsto> ''prov-A'']
      \<and> pv_Name pv = ''pv-new''
      \<and> pv_Labels pv = map_of [(''zone'', ''z1''), (provisionerIDAnn, ''other'')])
   \<and> (\<exists>pv. fst (Provision_crd ex_pkg [''hostPath'' \<mapsto> ex_labelled None]
               (ex_p ex_hostpath_source ''prov-A'') ex_options_unsized ex_state) =
             Return (Some pv, None)
      \<and> pv_Source (pv_Spec pv) = no_pv_source \<lparr> pvs_AWSElasticBlockStore := Some ''vol-1'' \<rparr>
      \<and> pv_Capacity (pv_Spec pv) = [''storage'' \<mapsto> 0]
      \<and> pv_AccessModes (pv_Spec pv) = [''ReadWriteOnce'']
      \<and> pv_ReclaimPolicy (pv_Spec pv) = ''Retain''
      \<and> pv_Annotations pv = [provisionerIDAnn \<mapsto> ''prov-A'']
      \<and> pv_Name pv = ''pv-new''
      \<and> pv_Labels pv = map_of [(''zone'', ''z1''), (provisionerIDAnn, ''other'')])"
proof -
  let ?vp = "[''hostPath'' \<mapsto> ex_labelled None]"
  let ?p = "ex_p ex_hostpath_source ''prov-A''"
  let ?src = "no_pv_source \<lparr> pvs_AWSElasticBlockStore := Some ''vol-1'' \<rparr>"
  let ?ls = "[(''zone'', ''z1''), (provisionerIDAnn, ''other'')]"
  let ?t = "Provision_tpr ex_pkg ?vp ?p ex_options ex_state"
  let ?c = "Provision_crd ex_pkg ?vp ?p ex_options_unsized ex_state"
  let ?pt = "assemble_pv ?p ex_options ?src ?ls"
  let ?pc = "assemble_pv ?p ex_options_unsized ?src ?ls"
  have vals: "Requests (pvc_Resources (pvc_Spec (PVC ex_options))) ''storage'' = Some 2048"
      "Requests (pvc_Resources (pvc_Spec (PVC ex_options_unsized))) ''storage'' = None"
      "pvc_AccessModes (pvc_Spec (PVC ex_options)) = [''ReadWriteOnce'']"
      "pvc_AccessModes (pvc_Spec (PVC ex_options_unsized)) = [''ReadWriteOnce'']"
      "PersistentVolumeReclaimPolicy ex_options = ''Retain''"
      "PersistentVolumeReclaimPolicy ex_options_unsized = ''Retain''"
      "PVName ex_options = ''pv-new''" "PVName ex_options_unsized = ''pv-new''"
      "identity ?p = ''prov-A''"
    by (simp_all add: ex_options_unsized_def ex_options_def ex_p_def newSnapshotProvisioner_def
        ResourceStorage_def provisionerIDAnn_def)
  have plug: "plugin = ex_labelled None" if "?vp t = Some plugin" for t plugin
    using that by (simp split: if_splits)
  have rt: "?t = (Return (Some ?pt, None), snd ?t)"
    using ex_Provision_tpr_labelled by (simp add: prod_eq_iff)
  have rc: "?c = (Return (Some ?pc, None), snd ?c)"
    using ex_Provision_crd_labelled by (simp add: prod_eq_iff)
  from Provision_success_volume [of ex_pkg ?vp ?p ex_options ex_state ?pt "snd ?t",
         THEN conjunct1, THEN mp, OF rt]
  obtain sn snap sd plugin src ls
    where t1: "?vp (GetSupportedVolumeFromSnapshotDataSpec ex_pkg (sd_Spec sd)) = Some plugin"
      and t2: "SnapshotRestore plugin (Some sd) (PVC ex_options) (PVName ex_options)
                 (Parameters ex_options) (world ex_state) = ((Some src, ls, None), world (snd ?t))"
      and t3: "pv_Source (pv_Spec ?pt) = src"
        "pv_Capacity (pv_Spec ?pt) =
           [''storage'' \<mapsto>
              (case Requests (pvc_Resources (pvc_Spec (PVC ex_options))) ''storage'' of
                 None \<Rightarrow> 0 | Some q \<Rightarrow> q)]"
        "pv_AccessModes (pv_Spec ?pt) = pvc_AccessModes (pvc_Spec (PVC ex_options))"
        "pv_ReclaimPolicy (pv_Spec ?pt) = PersistentVolumeReclaimPolicy ex_options"
        "pv_Annotations ?pt = [provisionerIDAnn \<mapsto> identity ?p]"
        "pv_Name ?pt = PVName ex_options"
      and t4: "distinct (map fst ls) \<longrightarrow> pv_Labels ?pt = map_of ls"
    by (elim exE conjE)
  from t2 plug [OF t1] have t5: "src = ?src" "ls = ?ls"
    by (simp_all add: ex_labelled_restore)
  from t4 have t6: "pv_Labels ?pt =
      map_of [(''zone'', ''z1''), (provisionerIDAnn, ''other'')]"
    unfolding t5 vals by (simp add: provisionerIDAnn_def)
  have ft:
      "pv_Source (pv_Spec ?pt) = ?src"
      "pv_Capacity (pv_Spec ?pt) = [''storage'' \<mapsto> 2048]"
      "pv_AccessModes (pv_Spec ?pt) = [''ReadWriteOnce'']"
      "pv_ReclaimPolicy (pv_Spec ?pt) = ''Retain''"
      "pv_Annotations ?pt = [provisionerIDAnn \<mapsto> ''prov-A'']"
      "pv_Name ?pt = ''pv-new''"
    using t3 unfolding t5 by (simp_all add: vals)
  from Provision_success_volume [of ex_pkg ?vp ?p ex_options_unsized ex_state ?pc "snd ?c",
         THEN conjunct2, THEN mp, OF rc]
  obtain sn' snap' sd' r and pvv :: PersistentVolume and plugin' src' ls' err
    where c1: "?vp (GetSupportedVolumeFromPVSpec ex_pkg (pv_Spec pvv)) = Some plugin'"
      and c2: "SnapshotRestore plugin' (Some sd') (PVC ex_options_unsized)
                 (PVName ex_options_unsized) (Parameters ex_options_unsized) (world ex_state) =
               ((Some src', ls', err), world (snd ?c))"
      and c3: "pv_Source (pv_Spec ?pc) = src'"
        "pv_Capacity (pv_Spec ?pc) =
           [''storage'' \<mapsto>
              (case Requests (pvc_Resources (pvc_Spec (PVC ex_options_unsized))) ''storage'' of
                 None \<Rightarrow> 0 | Some q \<Rightarrow> q)]"
        "pv_AccessModes (pv_Spec ?pc) = pvc_AccessModes (pvc_Spec (PVC ex_options_unsized))"
        "pv_ReclaimPolicy (pv_Spec ?pc) = PersistentVolumeReclaimPolicy ex_options_unsized"
        "pv_Annotations ?pc = [provisionerIDAnn \<mapsto> identity ?p]"
        "pv_Name ?pc = PVName ex_options_unsized"
      and c4: "distinct (map fst ls') \<longrightarrow> pv_Labels ?pc = map_of ls'"
    by (elim exE conjE)
  from c2 plug [OF c1] have c5: "src' = ?src" "ls' = ?ls"
    by (simp_all add: ex_labelled_restore)
  from c4 have c6: "pv_Labels ?pc =
      map_of [(''zone'', ''z1''), (provisionerIDAnn, ''other'')]"
    unfolding c5 vals by (simp add: provisionerIDAnn_def)
  have fc:
      "pv_Source (pv_Spec ?pc) = ?src"
      "pv_Capacity (pv_Spec ?pc) = [''storage'' \<mapsto> 0]"
      "pv_AccessModes (pv_Spec ?pc) = [''ReadWriteOnce'']"
      "pv_ReclaimPolicy (pv_Spec ?pc) = ''Retain''"
      "pv_Annotations ?pc = [provisionerIDAnn \<mapsto> ''prov-A'']"
      "pv_Name ?pc = ''pv-new''"
    using c3 unfolding c5 by (simp_all add: vals)
  have "\<exists>pv. fst ?t = Return (Some pv, None)
      \<and> pv_Source (pv_Spec pv) = ?src
      \<and> pv_Capacity (pv_Spec pv) = [''storage'' \<mapsto> 2048]
      \<and> pv_AccessModes (pv_Spec pv) = [''ReadWriteOnce'']
      \<and> pv_ReclaimPolicy (pv_Spec pv) = ''Retain''
      \<and> pv_Annotations pv = [provisionerIDAnn \<mapsto> ''prov-A'']
      \<and> pv_Name pv = ''pv-new''
      \<and> pv_Labels pv = map_of [(''zone'', ''z1''), (provisionerIDAnn, ''other'')]"
    using ex_Provision_tpr_labelled ft t6
    by (intro exI [of _ ?pt]) blast
  moreover have "\<exists>pv. fst ?c = Return (Some pv, None)
      \<and> pv_Source (pv_Spec pv) = ?src
      \<and> pv_Capacity (pv_Spec pv) = [''storage'' \<mapsto> 0]
      \<and> pv_AccessModes (pv_Spec pv) = [''ReadWriteOnce'']
      \<and> pv_ReclaimPolicy (pv_Spec pv) = ''Retain''
      \<and> pv_Annotations pv = [provisionerIDAnn \<mapsto> ''prov-A'']
      \<and> pv_Name pv = ''pv-new''
      \<and> pv_Labels pv = map_of [(''zone'', ''z1''), (provisionerIDAnn, ''other'')]"
    using ex_Provision_crd_labelled fc c6
    by (intro exI [of _ ?pc]) blast
  ultimately show ?thesis
    by (rule conjI)
qed

subsection \<open>Provision reads the records and writes none\<close>

lemma reads_only_refl: "reads_only s s"
  by (simp add: reads_only_def)

lemma reads_only_trans: "reads_only s sa \<Longrightarrow> reads_only sa sb \<Longrightarrow> reads_only s sb"
  by (auto simp: reads_only_def)

lemma reads_only_emit: "\<not> is_write e \<Longrightarrow> reads_only s sa \<Longrightarrow> reads_only s (emit e sa)"
  by (auto simp: reads_only_def emit_def)

lemma reads_only_world: "reads_only s sa \<Longrightarrow> reads_only s (sa \<lparr> world := w \<rparr>)"
  by (simp add: reads_only_def)

lemma not_write [simp]:
  "\<not> is_write (Request GET r ns n)" "\<not> is_write (PluginCall t m)" "\<not> is_write (Glog sev f)"
  by (simp_all add: is_write_def)

lemmas reads_only_intros = reads_only_refl reads_only_emit reads_only_world

lemma snapshotRestore_tpr_reads_only:
  "reads_only s (snd (snapshotRestore_tpr k vp p n sd options s))"
  by (simp add: snapshotRestore_tpr_def Let_def reads_only_intros
      split: option.splits prod.splits)

lemma getPV_reads_only:
  "reads_only s (snd (getPVFromVolumeSnapshotDataSpec p spec s))"
  by (simp add: getPVFromVolumeSnapshotDataSpec_def Let_def reads_only_intros
      split: option.splits prod.splits)

lemma snapshotRestore_crd_reads_only:
  "reads_only s (snd (snapshotRestore_crd k vp p n sd options s))"
proof -
  obtain pv err sa where g: "getPVFromVolumeSnapshotDataSpec p (sd_Spec sd) s = ((pv, err), sa)"
    by (metis surj_pair)
  then have "reads_only s sa"
    using getPV_reads_only [of s p "sd_Spec sd"] by simp
  then show ?thesis
    by (simp add: snapshotRestore_crd_def Let_def g reads_only_intros
        split: option.splits prod.splits)
qed

lemma Provision_reads_only:
  assumes "\<And>n sd sa. reads_only sa (snd (restore p n sd options sa))"
  shows "reads_only s (snd (Provision restore k p options s))"
proof -
  have *: "reads_only s sb" if "reads_only s sa" and "restore p n sd options sa = (r, sb)"
    for sa sb n sd r
    using that assms [of sa n sd] by (auto intro: reads_only_trans)
  show ?thesis
    unfolding Provision_def Let_def
    by (auto split: option.splits sum.splits prod.splits outcome.splits
        intro!: reads_only_intros elim!: *[rotated])
qed

text \<open>
  C8. On every path of \<^verbatim>\<open>Provision\<close>, in both revisions, whatever the inputs and whatever the
  plugins do, the requests that the provisioner sends to the API server are reads: the events
  of the call extend those before it, and none of the added events is a request with a verb
  other than \<^verbatim>\<open>GET\<close>. The snapshot and snapshot data records are therefore never written. The
  provisioner record itself is an argument that \<^verbatim>\<open>Provision\<close> only reads: no field of
  \<^verbatim>\<open>snapshotProvisioner\<close> and no entry of the registry is assigned in \<^verbatim>\<open>Provision\<close> or
  \<^verbatim>\<open>snapshotRestore\<close>.
\<close>

theorem Provision_only_reads_records:
  "(\<exists>new. events (snd (Provision_tpr k vp p options s)) = events s @ new
        \<and> (\<forall>e\<in>set new. \<not> is_write e))
   \<and> (\<exists>new. events (snd (Provision_crd k vp' p options s)) = events s @ new
        \<and> (\<forall>e\<in>set new. \<not> is_write e))"
  using Provision_reads_only [of "snapshotRestore_tpr k vp" p options s k,
          OF snapshotRestore_tpr_reads_only]
        Provision_reads_only [of "snapshotRestore_crd k vp'" p options s k,
          OF snapshotRestore_crd_reads_only]
  unfolding Provision_tpr_def Provision_crd_def reads_only_def by blast

theorem Provision_only_reads_records_witness:
  "events (snd (Provision_tpr ex_pkg (ex_registry_tpr (ex_host (Some ex_tar_error)))
                  (ex_p ex_hostpath_source ''prov-A'') ex_options ex_state)) =
     [Request GET VolumeSnapshotResourcePlural ''ns1'' ''s1'',
      Request GET VolumeSnapshotDataResourcePlural ''default'' ''d1'',
      Glog (InfoV 3) ''restore from VolumeSnapshotData %s'',
      PluginCall ''hostPath'' M_SnapshotRestore,
      Glog Warning ''failed to snapshot %#v, err: %v'']
   \<and> filter is_write
        (events (snd (Provision_tpr ex_pkg (ex_registry_tpr (ex_host (Some ex_tar_error)))
                        (ex_p ex_hostpath_source ''prov-A'') ex_options ex_state))) = []
   \<and> filter is_write
        (events (snd (Provision_crd ex_pkg (ex_registry_crd (ex_host (Some ex_tar_error)))
                        (ex_p ex_hostpath_source ''prov-A'') ex_options ex_state))) = []"
proof -
  have e: "events ex_state = []"
    by (simp add: ex_state_def)
  from Provision_only_reads_records
         [of ex_pkg "ex_registry_tpr (ex_host (Some ex_tar_error))"
            "ex_p ex_hostpath_source ''prov-A''" ex_options ex_state
            "ex_registry_crd (ex_host (Some ex_tar_error))"]
  show ?thesis
    unfolding e by (auto simp: ex_Provision_tpr_tar_fails filter_empty_conv)
qed

section \<open>Delete\<close>

text \<open>
  C2. For every volume passed to \<^verbatim>\<open>Delete\<close>, in both revisions: when the ownership annotation is
  absent, \<^verbatim>\<open>Delete\<close> returns the plain error \<^verbatim>\<open>identity annotation not found on PV\<close>; when it is
  present and differs from the identity of this provisioner, \<^verbatim>\<open>Delete\<close> returns a
  \<^verbatim>\<open>controller.IgnoredError\<close>, the outcome the controller skips. In both cases the state is the
  one before the call: no plugin method has been called and the world is untouched.
\<close>

theorem Delete_ownership_check:
  "(pv_Annotations volume provisionerIDAnn = None \<longrightarrow>
      Delete_tpr p volume s = (Some (errors_New ''identity annotation not found on PV''), s)
      \<and> Delete_crd k vp p volume s = (Some (errors_New ''identity annotation not found on PV''), s))
   \<and> (\<forall>ann. pv_Annotations volume provisionerIDAnn = Some ann \<and> ann \<noteq> identity p \<longrightarrow>
         Delete_tpr p volume s =
           (Some (IgnoredError ''identity annotation on PV does not match ours''), s)
         \<and> Delete_crd k vp p volume s =
             (Some (IgnoredError ''identity annotation on PV does not match ours''), s))"
  by (simp add: Delete_tpr_def Delete_crd_def)

theorem Delete_ownership_check_witness:
  "Delete_tpr (ex_p no_source ''prov-B'') (ex_pv0 \<lparr> pv_Annotations := Map.empty \<rparr>) ex_state =
     (Some (errors_New ''identity annotation not found on PV''), ex_state)
   \<and> Delete_crd ex_pkg (ex_registry_crd (ex_host None)) (ex_p no_source ''prov-B'')
        (ex_pv0 \<lparr> pv_Annotations := Map.empty \<rparr>) ex_state =
       (Some (errors_New ''identity annotation not found on PV''), ex_state)
   \<and> Delete_tpr (ex_p no_source ''prov-B'') ex_pv0 ex_state =
       (Some (IgnoredError ''identity annotation on PV does not match ours''), ex_state)
   \<and> Delete_crd ex_pkg (ex_registry_crd (ex_host None)) (ex_p no_source ''prov-B'')
        ex_pv0 ex_state =
       (Some (IgnoredError ''identity annotation on PV does not match ours''), ex_state)"
proof -
  have a: "pv_Annotations (ex_pv0 \<lparr> pv_Annotations := Map.empty \<rparr>) provisionerIDAnn = None"
    by simp
  have b: "pv_Annotations ex_pv0 provisionerIDAnn = Some ''prov-A''"
      "''prov-A'' \<noteq> identity (ex_p no_source ''prov-B'')"
    by (simp_all add: ex_pv0_def ex_p_def newSnapshotProvisioner_def)
  from Delete_ownership_check
         [of "ex_pv0 \<lparr> pv_Annotations := Map.empty \<rparr>" "ex_p no_source ''prov-B''" ex_state
            ex_pkg "ex_registry_crd (ex_host None)"]
       Delete_ownership_check
         [of ex_pv0 "ex_p no_source ''prov-B''" ex_state ex_pkg "ex_registry_crd (ex_host None)"]
       a b
  show ?thesis by blast
qed

subsection \<open>After the ownership check\<close>

text \<open>
  The CRD revision (lines 453-463): for a volume that carries the identity of this
  provisioner, \<^verbatim>\<open>Delete\<close> takes the volume type tag from the spec of the volume; when the tag is
  empty or no plugin is registered for it, \<^verbatim>\<open>Delete\<close> fails with \<open>UnsupportedVolumeType\<close> and
  calls no plugin; otherwise it calls the \<^verbatim>\<open>VolumeDelete\<close> of the plugin registered for the tag,
  once, and returns what the plugin returns, error or nil, as it is.
\<close>

lemma Delete_crd_after_ownership_check:
  assumes "pv_Annotations volume provisionerIDAnn = Some (identity p)"
  shows "(GetSupportedVolumeFromPVSpec k (pv_Spec volume) = []
         \<or> vp (GetSupportedVolumeFromPVSpec k (pv_Spec volume)) = None
       \<longrightarrow> (\<exists>e. UnsupportedVolumeType e \<and> Delete_crd k vp p volume s = (Some e, s)))
    \<and> (\<forall>plugin err w.
          GetSupportedVolumeFromPVSpec k (pv_Spec volume) \<noteq> []
          \<and> vp (GetSupportedVolumeFromPVSpec k (pv_Spec volume)) = Some plugin
          \<and> VolumeDelete plugin volume (world s) = (err, w)
       \<longrightarrow> Delete_crd k vp p volume s =
             (err, s \<lparr> events := events s @ [PluginCall (GetSupportedVolumeFromPVSpec k (pv_Spec volume))
                                                M_VolumeDelete],
                       world := w \<rparr>))"
  using assms
  by (auto simp: Delete_crd_def UnsupportedVolumeType_def Let_def emit_def)

lemma ex_Delete_crd_calls_VolumeDelete:
  "Delete_crd ex_pkg [''hostPath'' \<mapsto> ex_hostpath_crd (ex_host None) (Some (External ''device busy''))]
     (ex_p no_source ''prov-A'') ex_pv0 ex_state =
   (Some (External ''device busy''),
    ex_state \<lparr> events := events ex_state @ [PluginCall ''hostPath'' M_VolumeDelete],
               world := 0 \<rparr>)"
proof -
  let ?p = "ex_p no_source ''prov-A''"
  let ?busy = "ex_hostpath_crd (ex_host None) (Some (External ''device busy''))"
  have own: "pv_Annotations ex_pv0 provisionerIDAnn = Some (identity ?p)"
    by (simp add: ex_pv0_def ex_p_def newSnapshotProvisioner_def)
  have del: "VolumeDelete ?busy ex_pv0 (world ex_state) = (Some (External ''device busy''), 0)"
    by (simp add: ex_hostpath_crd_def ex_state_def)
  from Delete_crd_after_ownership_check
         [OF own, of ex_pkg "[''hostPath'' \<mapsto> ?busy]" ex_state] del
  show ?thesis
    by (simp add: ex_pv0_tag)
qed

text \<open>
  C3. The claim: for every volume that passes the ownership check, \<^verbatim>\<open>Delete\<close> determines the
  volume type tag from the location of the volume, fails with \<open>UnsupportedVolumeType\<close> when
  there is no tag or no plugin for it, and otherwise calls the \<^verbatim>\<open>VolumeDelete\<close> of the plugin
  and returns its result. \<^verbatim>\<open>Delete\<close> is documented, in both revisions, to remove the storage
  asset that \<^verbatim>\<open>Provision\<close> created (lines 163-164 and 442-443), and the CRD revision does what
  the claim says. The code of the TPR revision, at the inputs below, both volumes that carry
  the identity of the provisioner: for a volume at a host path and for a volume with no
  populated location alike, \<^verbatim>\<open>Delete\<close> returns nil and the state is the one before the call: no
  volume type is determined, no error is returned for the volume without a location, and
  nothing is called that would remove the asset.
\<close>

theorem Delete_tpr_ignores_volume_type:
  "pv_Annotations ex_pv0 provisionerIDAnn = Some (identity (ex_p no_source ''prov-A''))
   \<and> populated_pv (pv_Source (pv_Spec ex_pv0)) = [V_HostPath]
   \<and> Delete_tpr (ex_p no_source ''prov-A'') ex_pv0 ex_state = (None, ex_state)
   \<and> pv_Annotations (ex_pv0 \<lparr> pv_Spec := pv_Spec ex_pv0 \<lparr> pv_Source := no_pv_source \<rparr> \<rparr>)
        provisionerIDAnn = Some (identity (ex_p no_source ''prov-A''))
   \<and> populated_pv (pv_Source (pv_Spec
        (ex_pv0 \<lparr> pv_Spec := pv_Spec ex_pv0 \<lparr> pv_Source := no_pv_source \<rparr> \<rparr>))) = []
   \<and> Delete_tpr (ex_p no_source ''prov-A'')
        (ex_pv0 \<lparr> pv_Spec := pv_Spec ex_pv0 \<lparr> pv_Source := no_pv_source \<rparr> \<rparr>) ex_state =
       (None, ex_state)"
  by (simp add: Delete_tpr_def ex_pv0_def ex_p_def newSnapshotProvisioner_def populated_pv_def
      no_pv_source_def)

section \<open>The plugin registry\<close>

lemma buildVolumePlugins_tpr_hostpath:
  "fst (buildVolumePlugins_tpr c h f vp s) hostpath_GetPluginName = Some (hostpath_RegisterPlugin h)"
  by (simp add: buildVolumePlugins_tpr_def split: prod.splits)

lemma buildVolumePlugins_crd_hostpath:
  "fst (buildVolumePlugins_crd c hp f vp s) hostpath_GetPluginName = Some hp"
  by (simp add: buildVolumePlugins_crd_def split: prod.splits)

lemma buildVolumePlugins_tpr_init_fails:
  assumes "cloudProvider f \<noteq> []"
    and "\<forall>cl. InitCloudProvider c (cloudProvider f) (cloudConfigFile f) \<noteq> (Some cl, None)"
  shows "buildVolumePlugins_tpr c h f vp s =
           (vp(hostpath_GetPluginName \<mapsto> hostpath_RegisterPlugin h),
            emit (Glog Warning
              ''failed to initialize aws cloudprovider: %v, supported cloudproviders are %#v'') s)"
  using assms
  by (cases "InitCloudProvider c (cloudProvider f) (cloudConfigFile f)")
     (auto simp: buildVolumePlugins_tpr_def split: option.splits)

lemma buildVolumePlugins_crd_init_fails:
  assumes "cloudProvider f \<noteq> []"
    and "\<forall>cl. InitCloudProvider c (cloudProvider f) (cloudConfigFile f) \<noteq> (Some cl, None)"
  shows "buildVolumePlugins_crd c hp f vp s =
           (vp(hostpath_GetPluginName \<mapsto> hp),
            emit (Glog Warning
              ''failed to initialize aws cloudprovider: %v, supported cloudproviders are %#v'') s)"
  using assms
  by (cases "InitCloudProvider c (cloudProvider f) (cloudConfigFile f)")
     (auto simp: buildVolumePlugins_crd_def split: option.splits)

lemma buildVolumePlugins_tpr_only_when:
  assumes "fst (buildVolumePlugins_tpr c h f vp s) t \<noteq> vp t"
  shows "t = hostpath_GetPluginName
         \<or> (cloudProvider f \<noteq> []
            \<and> (\<exists>cl. InitCloudProvider c (cloudProvider f) (cloudConfigFile f) = (Some cl, None))
            \<and> cloudProvider f = aws_ProviderName c \<and> t = aws_ebs_GetPluginName c)"
  using assms
  by (cases "InitCloudProvider c (cloudProvider f) (cloudConfigFile f)")
     (auto simp: buildVolumePlugins_tpr_def split: option.splits if_splits)

lemma buildVolumePlugins_crd_only_when:
  assumes "fst (buildVolumePlugins_crd c hp f vp s) t \<noteq> vp t"
  shows "t = hostpath_GetPluginName
         \<or> (cloudProvider f \<noteq> []
            \<and> (\<exists>cl. InitCloudProvider c (cloudProvider f) (cloudConfigFile f) = (Some cl, None))
            \<and> (cloudProvider f = aws_ProviderName c \<and> t = aws_ebs_GetPluginName c
               \<or> cloudProvider f = gce_ProviderName c \<and> t = gce_pd_GetPluginName c
               \<or> cloudProvider f = openstack_ProviderName c \<and> t = cinder_GetPluginName c))"
  using assms
  by (cases "InitCloudProvider c (cloudProvider f) (cloudConfigFile f)")
     (auto simp: buildVolumePlugins_crd_def Let_def split: option.splits if_splits prod.splits)

text \<open>
  C6. After \<^verbatim>\<open>buildVolumePlugins\<close>, in both revisions and whatever the flags and the registry
  before: the hostpath plugin is registered under \<^verbatim>\<open>hostPath\<close>; when a cloud provider is asked
  for and its initialisation fails (an error, or no provider), the function returns all the
  same, the registry differs from the one before by the hostpath entry only, and one warning
  has been logged; and an entry other than \<^verbatim>\<open>hostPath\<close> differs from the registry before only
  when the initialisation of the provider succeeded, the entry being the one of the cloud
  plugin of that provider.
\<close>

theorem buildVolumePlugins_registration_policy:
  "fst (buildVolumePlugins_tpr c h f vp s) hostpath_GetPluginName = Some (hostpath_RegisterPlugin h)
   \<and> fst (buildVolumePlugins_crd c' hp f vp' s) hostpath_GetPluginName = Some hp
   \<and> (cloudProvider f \<noteq> []
        \<and> (\<forall>cl. InitCloudProvider c (cloudProvider f) (cloudConfigFile f) \<noteq> (Some cl, None))
       \<longrightarrow> buildVolumePlugins_tpr c h f vp s =
             (vp(hostpath_GetPluginName \<mapsto> hostpath_RegisterPlugin h),
              emit (Glog Warning
                ''failed to initialize aws cloudprovider: %v, supported cloudproviders are %#v'') s))
   \<and> (cloudProvider f \<noteq> []
        \<and> (\<forall>cl. InitCloudProvider c' (cloudProvider f) (cloudConfigFile f) \<noteq> (Some cl, None))
       \<longrightarrow> buildVolumePlugins_crd c' hp f vp' s =
             (vp'(hostpath_GetPluginName \<mapsto> hp),
              emit (Glog Warning
                ''failed to initialize aws cloudprovider: %v, supported cloudproviders are %#v'') s))
   \<and> (\<forall>t. fst (buildVolumePlugins_tpr c h f vp s) t \<noteq> vp t \<longrightarrow>
          t = hostpath_GetPluginName
          \<or> (cloudProvider f \<noteq> []
             \<and> (\<exists>cl. InitCloudProvider c (cloudProvider f) (cloudConfigFile f) = (Some cl, None))
             \<and> cloudProvider f = aws_ProviderName c \<and> t = aws_ebs_GetPluginName c))
   \<and> (\<forall>t. fst (buildVolumePlugins_crd c' hp f vp' s) t \<noteq> vp' t \<longrightarrow>
          t = hostpath_GetPluginName
          \<or> (cloudProvider f \<noteq> []
             \<and> (\<exists>cl. InitCloudProvider c' (cloudProvider f) (cloudConfigFile f) = (Some cl, None))
             \<and> (cloudProvider f = aws_ProviderName c' \<and> t = aws_ebs_GetPluginName c'
                \<or> cloudProvider f = gce_ProviderName c' \<and> t = gce_pd_GetPluginName c'
                \<or> cloudProvider f = openstack_ProviderName c' \<and> t = cinder_GetPluginName c')))"
  using buildVolumePlugins_tpr_hostpath [of c h f vp s]
    buildVolumePlugins_crd_hostpath [of c' hp f vp' s]
    buildVolumePlugins_tpr_init_fails [of f c h vp s]
    buildVolumePlugins_crd_init_fails [of f c' hp vp' s]
    buildVolumePlugins_tpr_only_when [of c h f vp s]
    buildVolumePlugins_crd_only_when [of c' hp f vp' s]
  by (intro conjI impI allI) blast+

theorem buildVolumePlugins_registration_policy_witness:
  "buildVolumePlugins_tpr
      (ex_cloudpkgs (None, Some (External ''no credentials'')) (hostpath_RegisterPlugin (ex_host None)))
      (ex_host None) (ex_flags ''aws'') Map.empty ex_state =
     ([''hostPath'' \<mapsto> hostpath_RegisterPlugin (ex_host None)],
      \<lparr> events = [Glog Warning
          ''failed to initialize aws cloudprovider: %v, supported cloudproviders are %#v''],
        world = 0 \<rparr>)
   \<and> buildVolumePlugins_crd
        (ex_cloudpkgs (None, Some (External ''no credentials'')) (ex_labelled None))
        (ex_hostpath_crd (ex_host None) None) (ex_flags ''aws'') Map.empty ex_state =
       ([''hostPath'' \<mapsto> ex_hostpath_crd (ex_host None) None],
        \<lparr> events = [Glog Warning
            ''failed to initialize aws cloudprovider: %v, supported cloudproviders are %#v''],
          world = 0 \<rparr>)"
proof -
  let ?c = "ex_cloudpkgs (None, Some (External ''no credentials''))
              (hostpath_RegisterPlugin (ex_host None))"
  let ?c' = "ex_cloudpkgs (None, Some (External ''no credentials'')) (ex_labelled None)"
  have f: "cloudProvider (ex_flags ''aws'') \<noteq> []"
    by (simp add: ex_flags_def)
  have i: "\<forall>cl. InitCloudProvider ?c (cloudProvider (ex_flags ''aws''))
                  (cloudConfigFile (ex_flags ''aws'')) \<noteq> (Some cl, None)"
      "\<forall>cl. InitCloudProvider ?c' (cloudProvider (ex_flags ''aws''))
                  (cloudConfigFile (ex_flags ''aws'')) \<noteq> (Some cl, None)"
    by (simp_all add: ex_cloudpkgs_def)
  have e: "emit (Glog Warning
             ''failed to initialize aws cloudprovider: %v, supported cloudproviders are %#v'')
             ex_state =
           \<lparr> events = [Glog Warning
               ''failed to initialize aws cloudprovider: %v, supported cloudproviders are %#v''],
             world = 0 \<rparr>"
    by (simp add: emit_def ex_state_def)
  from buildVolumePlugins_registration_policy
         [of ?c "ex_host None" "ex_flags ''aws''" Map.empty ex_state ?c'
            "ex_hostpath_crd (ex_host None) None" Map.empty] f i
  show ?thesis
    unfolding e hostpath_GetPluginName_def by blast
qed

end
